theory Spec2Isabelle
  imports Complex_Main "HOL-Library.AList"
begin

section \<open>JavaScript text primitives\<close>

text \<open>
  Cells of the spreadsheet and request fields are JavaScript strings. They are modelled as
  HOL strings over ASCII; the white space that \<open>trim\<close>, \<open>parseInt\<close>, \<open>parseFloat\<close> and
  \<open>Number\<close> strip is tab, line feed, vertical tab, form feed, carriage return and space.
  Case conversion maps the ASCII letters and leaves every other character as it is.
\<close>

definition isWhiteSpace :: "char \<Rightarrow> bool" where
  "isWhiteSpace c =
     (c = CHR 0x09 \<or> c = CHR 0x0A \<or> c = CHR 0x0B \<or> c = CHR 0x0C \<or> c = CHR 0x0D \<or> c = CHR 0x20)"

definition trimStart :: "string \<Rightarrow> string" where
  "trimStart s = dropWhile isWhiteSpace s"

definition trim :: "string \<Rightarrow> string" where
  "trim s = rev (dropWhile isWhiteSpace (rev (dropWhile isWhiteSpace s)))"

definition upperChar :: "char \<Rightarrow> char" where
  "upperChar c =
     (let n = (of_char c :: nat) in if 97 \<le> n \<and> n \<le> 122 then char_of (n - 32) else c)"

definition lowerChar :: "char \<Rightarrow> char" where
  "lowerChar c =
     (let n = (of_char c :: nat) in if 65 \<le> n \<and> n \<le> 90 then char_of (n + 32) else c)"

definition toUpperCase :: "string \<Rightarrow> string" where
  "toUpperCase s = map upperChar s"

definition toLowerCase :: "string \<Rightarrow> string" where
  "toLowerCase s = map lowerChar s"

definition startsWith :: "string \<Rightarrow> string \<Rightarrow> bool" where
  "startsWith s p = (take (length p) s = p)"

text \<open>
  \<open>s.split('__')\<close>: the pieces between successive occurrences of two underscores, found
  from the left. The first argument collects the piece being read, in reverse.
\<close>

fun splitUnderscores :: "string \<Rightarrow> string \<Rightarrow> string list" where
  "splitUnderscores cur (c # d # cs) =
     (if c = CHR ''_'' \<and> d = CHR ''_'' then rev cur # splitUnderscores [] cs
      else splitUnderscores (c # cur) (d # cs))"
| "splitUnderscores cur [c] = [rev (c # cur)]"
| "splitUnderscores cur [] = [rev cur]"

text \<open>An array element that may be missing: \<open>(a[k] || '')\<close>.\<close>

definition pieceOr :: "string list \<Rightarrow> nat \<Rightarrow> string" where
  "pieceOr a k = (if k < length a then a ! k else [])"

section \<open>JavaScript numbers\<close>

text \<open>
  A number is a finite value, an infinity or \<open>NaN\<close>. A finite value is a double, written as
  the rational number it is; what reads or computes a number rounds the exact result to the
  nearest double. Both zeros are \<open>Fin 0\<close>.
\<close>

datatype jsnum = Fin rat | PosInf | NegInf | NaN

text \<open>
  The double nearest to a rational. An integer of at most \<open>2^53\<close> in size is a double.
  Any other value lies between two neighbouring multiples of \<open>2^e\<close>, where \<open>e\<close> leaves 53
  binary digits before the point and is not below \<open>-1074\<close>; it goes to the nearer one, in
  the middle to the even one, and from \<open>2^1024\<close> on to an infinity.
\<close>

fun bitLength :: "nat \<Rightarrow> nat" where
  "bitLength n = (if n = 0 then 0 else Suc (bitLength (n div 2)))"

declare bitLength.simps [simp del]

definition scale2 :: "int \<Rightarrow> rat" where
  "scale2 e = (if e \<ge> 0 then 2 ^ nat e else 1 / 2 ^ nat (- e))"

text \<open>For a positive \<open>a\<close>, the \<open>l\<close> with \<open>2^l \<le> a < 2^(l + 1)\<close>.\<close>

definition floorLog2 :: "rat \<Rightarrow> int" where
  "floorLog2 a =
     (if a \<ge> 1 then int (bitLength (nat \<lfloor>a\<rfloor>)) - 1
      else - int (bitLength (nat (\<lceil>1 / a\<rceil> - 1))))"

definition toDouble :: "rat \<Rightarrow> jsnum" where
  "toDouble r =
     (if of_int \<lfloor>r\<rfloor> = r \<and> \<bar>r\<bar> \<le> 2 ^ 53 then Fin r
      else
        (let a = \<bar>r\<bar>;
             e = max (floorLog2 a - 52) (- 1074);
             scaled = a / scale2 e;
             q = \<lfloor>scaled\<rfloor>;
             rest = scaled - of_int q;
             m = (if rest > 1 / 2 \<or> (rest = 1 / 2 \<and> odd q) then q + 1 else q);
             v = of_int m * scale2 e
         in if v \<ge> 2 ^ 1024 then (if r > 0 then PosInf else NegInf)
            else Fin (if r > 0 then v else - v)))"

fun negNum :: "jsnum \<Rightarrow> jsnum" where
  "negNum (Fin r) = Fin (- r)"
| "negNum PosInf = NegInf"
| "negNum NegInf = PosInf"
| "negNum NaN = NaN"

definition infOfSign :: "rat \<Rightarrow> jsnum" where
  "infOfSign r = (if r = 0 then NaN else if r > 0 then PosInf else NegInf)"

fun mulNum :: "jsnum \<Rightarrow> jsnum \<Rightarrow> jsnum" where
  "mulNum (Fin a) (Fin b) = toDouble (a * b)"
| "mulNum NaN _ = NaN"
| "mulNum _ NaN = NaN"
| "mulNum (Fin a) PosInf = infOfSign a"
| "mulNum (Fin a) NegInf = infOfSign (- a)"
| "mulNum PosInf (Fin b) = infOfSign b"
| "mulNum NegInf (Fin b) = infOfSign (- b)"
| "mulNum PosInf PosInf = PosInf"
| "mulNum NegInf NegInf = PosInf"
| "mulNum PosInf NegInf = NegInf"
| "mulNum NegInf PosInf = NegInf"

fun addNum :: "jsnum \<Rightarrow> jsnum \<Rightarrow> jsnum" where
  "addNum (Fin a) (Fin b) = toDouble (a + b)"
| "addNum NaN _ = NaN"
| "addNum _ NaN = NaN"
| "addNum PosInf NegInf = NaN"
| "addNum NegInf PosInf = NaN"
| "addNum PosInf _ = PosInf"
| "addNum _ PosInf = PosInf"
| "addNum NegInf _ = NegInf"
| "addNum _ NegInf = NegInf"

text \<open>
  Truthiness of a number, \<open>a || b\<close> on numbers, \<open>x > c\<close>, \<open>x >= c\<close> and \<open>Math.max(0, x)\<close>.
\<close>

definition truthyNum :: "jsnum \<Rightarrow> bool" where
  "truthyNum n = (n \<noteq> NaN \<and> n \<noteq> Fin 0)"

definition orNum :: "jsnum \<Rightarrow> jsnum \<Rightarrow> jsnum" where
  "orNum a b = (if truthyNum a then a else b)"

fun gtNum :: "jsnum \<Rightarrow> rat \<Rightarrow> bool" where
  "gtNum (Fin a) c = (a > c)"
| "gtNum PosInf c = True"
| "gtNum NegInf c = False"
| "gtNum NaN c = False"

fun geNum :: "jsnum \<Rightarrow> rat \<Rightarrow> bool" where
  "geNum (Fin a) c = (a \<ge> c)"
| "geNum PosInf c = True"
| "geNum NegInf c = False"
| "geNum NaN c = False"

fun max0 :: "jsnum \<Rightarrow> jsnum" where
  "max0 (Fin a) = Fin (max 0 a)"
| "max0 PosInf = PosInf"
| "max0 NegInf = Fin 0"
| "max0 NaN = NaN"

text \<open>Truncation toward zero, as \<open>parseInt\<close> and the time value of a \<open>Date\<close> do it.\<close>

definition truncNum :: "rat \<Rightarrow> int" where
  "truncNum r = (if r \<ge> 0 then \<lfloor>r\<rfloor> else - \<lfloor>- r\<rfloor>)"

subsection \<open>Reading numbers from text\<close>

text \<open>
  The value of a digit in a radix: \<open>0\<close> to \<open>9\<close>, then the letters in either case.
  \<open>None\<close> when the character is no digit of the radix.
\<close>

definition digitOf :: "nat \<Rightarrow> char \<Rightarrow> nat option" where
  "digitOf radix c =
     (let n = (of_char c :: nat);
          v = (if 48 \<le> n \<and> n \<le> 57 then n - 48
               else if 97 \<le> n \<and> n \<le> 122 then n - 87
               else if 65 \<le> n \<and> n \<le> 90 then n - 55
               else 36)
      in if v < radix then Some v else None)"

definition isDigitIn :: "nat \<Rightarrow> char \<Rightarrow> bool" where
  "isDigitIn radix c = (digitOf radix c \<noteq> None)"

definition isDigit :: "char \<Rightarrow> bool" where
  "isDigit c = isDigitIn 10 c"

definition digitsValue :: "nat \<Rightarrow> string \<Rightarrow> nat" where
  "digitsValue radix ds = foldl (\<lambda>acc c. radix * acc + the (digitOf radix c)) 0 ds"

text \<open>
  \<open>parseInt(s, radix)\<close>, with radix \<open>0\<close> for a call that gives none. Leading white space is
  skipped, one sign is read, a \<open>0x\<close> prefix is dropped when the radix is 16 or not given,
  then the longest run of digits is read. \<open>None\<close> is \<open>NaN\<close>.
\<close>

definition parseIntRadix :: "nat \<Rightarrow> string \<Rightarrow> int option" where
  "parseIntRadix radix s =
     (let t = trimStart s;
          negative = (t \<noteq> [] \<and> hd t = CHR ''-'');
          u = (if t \<noteq> [] \<and> (hd t = CHR ''-'' \<or> hd t = CHR ''+'') then tl t else t);
          hex = ((radix = 0 \<or> radix = 16) \<and> (startsWith u ''0x'' \<or> startsWith u ''0X''));
          r = (if hex then 16 else if radix = 0 then 10 else radix);
          v = (if hex then drop 2 u else u);
          ds = takeWhile (isDigitIn r) v
      in if r < 2 \<or> r > 36 \<or> ds = [] then None
         else Some (if negative then - int (digitsValue r ds) else int (digitsValue r ds)))"

definition numOfInt :: "int option \<Rightarrow> jsnum" where
  "numOfInt p = (case p of None \<Rightarrow> NaN | Some i \<Rightarrow> toDouble (of_int i))"

text \<open>\<open>parseInt(s)\<close> on text, as a number.\<close>

definition parseInt :: "string \<Rightarrow> jsnum" where
  "parseInt s = numOfInt (parseIntRadix 0 s)"

text \<open>
  An unsigned decimal literal at the start of a text, with what follows it: \<open>Infinity\<close>, or
  digits with an optional fraction and an optional exponent. At least one digit is needed
  before or after the point; an exponent counts only when it has a digit.
\<close>

definition scanExponent :: "string \<Rightarrow> (bool \<times> nat \<times> string) option" where
  "scanExponent s =
     (if s \<noteq> [] \<and> (hd s = CHR ''e'' \<or> hd s = CHR ''E'') then
        (let a = tl s;
             negative = (a \<noteq> [] \<and> hd a = CHR ''-'');
             b = (if a \<noteq> [] \<and> (hd a = CHR ''-'' \<or> hd a = CHR ''+'') then tl a else a);
             ds = takeWhile isDigit b
         in if ds = [] then None else Some (negative, digitsValue 10 ds, dropWhile isDigit b))
      else None)"

definition scanUnsigned :: "string \<Rightarrow> (jsnum \<times> string) option" where
  "scanUnsigned s =
     (if startsWith s ''Infinity'' then Some (PosInf, drop 8 s)
      else
        (let ip = takeWhile isDigit s;
             r1 = dropWhile isDigit s;
             dot = (r1 \<noteq> [] \<and> hd r1 = CHR ''.'');
             fp = (if dot then takeWhile isDigit (tl r1) else []);
             r2 = (if dot \<and> (ip \<noteq> [] \<or> fp \<noteq> []) then dropWhile isDigit (tl r1) else r1);
             mantissa = of_nat (digitsValue 10 ip) + of_nat (digitsValue 10 fp) / 10 ^ length fp
         in if ip = [] \<and> fp = [] then None
            else (case scanExponent r2 of
                    None \<Rightarrow> Some (toDouble mantissa, r2)
                  | Some (negative, e, r3) \<Rightarrow>
                      Some (toDouble (if negative then mantissa / 10 ^ e else mantissa * 10 ^ e), r3))))"

text \<open>\<open>parseFloat(s)\<close>: the longest decimal literal after leading white space and a sign.\<close>

definition parseFloat :: "string \<Rightarrow> jsnum" where
  "parseFloat s =
     (let t = trimStart s;
          negative = (t \<noteq> [] \<and> hd t = CHR ''-'');
          u = (if t \<noteq> [] \<and> (hd t = CHR ''-'' \<or> hd t = CHR ''+'') then tl t else t)
      in case scanUnsigned u of
           None \<Rightarrow> NaN
         | Some (v, rest) \<Rightarrow> if negative then negNum v else v)"

text \<open>
  \<open>Number(s)\<close> on text: the whole trimmed text must be a literal. The empty text is 0; a
  literal with prefix \<open>0x\<close>, \<open>0o\<close> or \<open>0b\<close> takes no sign.
\<close>

definition prefixedLiteral :: "nat \<Rightarrow> string \<Rightarrow> jsnum" where
  "prefixedLiteral radix ds =
     (if ds \<noteq> [] \<and> list_all (isDigitIn radix) ds then toDouble (of_nat (digitsValue radix ds))
      else NaN)"

definition toNumber :: "string \<Rightarrow> jsnum" where
  "toNumber s =
     (let t = trim s in
      if t = [] then Fin 0
      else if startsWith t ''0x'' \<or> startsWith t ''0X'' then prefixedLiteral 16 (drop 2 t)
      else if startsWith t ''0o'' \<or> startsWith t ''0O'' then prefixedLiteral 8 (drop 2 t)
      else if startsWith t ''0b'' \<or> startsWith t ''0B'' then prefixedLiteral 2 (drop 2 t)
      else
        (let negative = (hd t = CHR ''-'');
             u = (if hd t = CHR ''-'' \<or> hd t = CHR ''+'' then tl t else t)
         in case scanUnsigned u of
              None \<Rightarrow> NaN
            | Some (v, rest) \<Rightarrow> if rest \<noteq> [] then NaN else if negative then negNum v else v))"

definition isNaN :: "string \<Rightarrow> bool" where
  "isNaN s = (toNumber s = NaN)"

subsection \<open>Writing numbers as text\<close>

text \<open>The decimal digits of a natural number.\<close>

definition digitChar :: "nat \<Rightarrow> char" where
  "digitChar d = char_of (48 + d)"

fun decimal :: "nat \<Rightarrow> string" where
  "decimal n = (if n < 10 then [digitChar n] else decimal (n div 10) @ [digitChar (n mod 10)])"

declare decimal.simps [simp del]

text \<open>
  The text of a number, as \<open>String(x)\<close> and a template literal give it. An integer of at
  most \<open>2^53\<close> in size prints all its digits. Otherwise the digits are the shortest run
  \<open>s\<close> for which \<open>s * 10^(n - k)\<close>, with \<open>k\<close> the number of digits, reads back as the same
  double, and among those the nearest to it (the even one of two equally near): for each
  \<open>k\<close> from 1 on the two multiples of \<open>10^(n - k)\<close> around the value are tried, and 17
  digits always suffice. The digits stand in positional notation when the decimal exponent
  \<open>n\<close> is above \<open>-6\<close> and at most 21, and in exponent notation otherwise.
\<close>

definition scale10 :: "int \<Rightarrow> rat" where
  "scale10 e = (if e \<ge> 0 then 10 ^ nat e else 1 / 10 ^ nat (- e))"

text \<open>For a positive \<open>a\<close>, the \<open>n\<close> with \<open>10^(n - 1) \<le> a < 10^n\<close>.\<close>

definition decimalExponent :: "rat \<Rightarrow> int" where
  "decimalExponent a =
     (if a \<ge> 1 then int (length (decimal (nat \<lfloor>a\<rfloor>)))
      else 1 - int (length (decimal (nat (\<lceil>1 / a\<rceil> - 1)))))"

fun shortestFrom :: "rat \<Rightarrow> int \<Rightarrow> nat \<Rightarrow> nat \<Rightarrow> nat \<times> int" where
  "shortestFrom a n 0 k = (nat \<lfloor>a / scale10 (n - int k)\<rfloor>, n)"
| "shortestFrom a n (Suc fuel) k =
     (let p = scale10 (n - int k);
          lo = \<lfloor>a / p\<rfloor>;
          hi = lo + 1;
          okLo = (toDouble (of_int lo * p) = Fin a);
          okHi = (toDouble (of_int hi * p) = Fin a);
          dLo = a - of_int lo * p;
          dHi = of_int hi * p - a
      in if okLo \<and> (\<not> okHi \<or> dLo < dHi \<or> (dLo = dHi \<and> even lo)) then (nat lo, n)
         else if okHi then (if hi = 10 ^ k then (1, n + 1) else (nat hi, n))
         else shortestFrom a n fuel (Suc k))"

definition positiveText :: "rat \<Rightarrow> string" where
  "positiveText a =
     (if of_int \<lfloor>a\<rfloor> = a \<and> a \<le> 2 ^ 53 then decimal (nat \<lfloor>a\<rfloor>)
      else
        (let (s, n) = shortestFrom a (decimalExponent a) 17 1;
             digits = decimal s;
             k = int (length digits)
         in if k \<le> n \<and> n \<le> 21 then digits @ replicate (nat (n - k)) CHR ''0''
            else if 0 < n \<and> n \<le> 21 then take (nat n) digits @ ''.'' @ drop (nat n) digits
            else if - 6 < n \<and> n \<le> 0 then ''0.'' @ replicate (nat (- n)) CHR ''0'' @ digits
            else (if k = 1 then digits else hd digits # ''.'' @ tl digits)
                 @ ''e'' @ (if n - 1 \<ge> 0 then ''+'' else ''-'') @ decimal (nat \<bar>n - 1\<bar>)))"

fun numberText :: "jsnum \<Rightarrow> string" where
  "numberText (Fin r) =
     (if r = 0 then ''0'' else (if r < 0 then ''-'' else []) @ positiveText \<bar>r\<bar>)"
| "numberText PosInf = ''Infinity''"
| "numberText NegInf = ''-Infinity''"
| "numberText NaN = ''NaN''"

section \<open>Request values\<close>

text \<open>
  The numeric fields of a request item (\<open>unitPrice\<close>, \<open>quantity\<close>, \<open>subtotal\<close>) arrive as
  JSON values and the handlers coerce them; they are modelled as values of the JSON types
  that have a coercion of their own. Text fields of a request are strings, empty when the
  field is absent (the handlers treat both alike).
\<close>

datatype jsval = JUndefined | JNull | JBool bool | JNum jsnum | JStr string

text \<open>\<open>Number(v)\<close>.\<close>

fun numberOf :: "jsval \<Rightarrow> jsnum" where
  "numberOf JUndefined = NaN"
| "numberOf JNull = Fin 0"
| "numberOf (JBool b) = (if b then Fin 1 else Fin 0)"
| "numberOf (JNum n) = n"
| "numberOf (JStr s) = toNumber s"

text \<open>\<open>typeof v === 'number'\<close>.\<close>

fun isNumber :: "jsval \<Rightarrow> bool" where
  "isNumber (JNum n) = True"
| "isNumber _ = False"

text \<open>
  \<open>parseInt(v)\<close> on a request value: the value is turned into text first, and the texts
  \<open>undefined\<close>, \<open>null\<close>, \<open>true\<close> and \<open>false\<close> hold no digit.
\<close>

fun parseIntOf :: "jsval \<Rightarrow> jsnum" where
  "parseIntOf (JStr s) = parseInt s"
| "parseIntOf (JNum n) = parseInt (numberText n)"
| "parseIntOf _ = NaN"

section \<open>The host: clock, dates and the display of numbers\<close>

text \<open>
  What the program takes from its runtime and from the spreadsheet service is a parameter
  of the model:
  \<^item> \<open>nowTime\<close>: the time value of \<open>new Date()\<close>, in milliseconds since the epoch;
  \<^item> \<open>nowStamp\<close>: that instant as \<open>toLocaleString('sv-SE', {timeZone: 'Africa/Cairo'})\<close> prints it;
  \<^item> \<open>parseDate\<close>: the time value of \<open>new Date(text)\<close>, \<open>None\<close> for an invalid date;
  \<^item> \<open>yearMonth\<close>: \<open>getFullYear()\<close> and \<open>getMonth()\<close> of a time value in the host's zone;
  \<^item> \<open>formatTime\<close>: \<open>toLocaleString\<close> of a time value, as above;
  \<^item> \<open>display\<close>: the text a cell shows after a number was entered into it.
\<close>

record env =
  nowTime :: int
  nowStamp :: string
  parseDate :: "string \<Rightarrow> int option"
  yearMonth :: "int \<Rightarrow> int \<times> int"
  formatTime :: "int \<Rightarrow> string"
  display :: "jsnum \<Rightarrow> string"

text \<open>
  \<open>serialToDate\<close>: \<open>Date.UTC(1899, 11, 30)\<close> is 25569 days before the epoch. A time value
  is an integer of at most \<open>8.64 * 10^15\<close> in size; anything else is an invalid date.
\<close>

fun timeClip :: "jsnum \<Rightarrow> int option" where
  "timeClip (Fin t) = (if \<bar>t\<bar> > 8640000000000000 then None else Some (truncNum t))"
| "timeClip _ = None"

definition serialToDate :: "jsnum \<Rightarrow> int option" where
  "serialToDate serial = timeClip (addNum (Fin (- 2209161600000)) (mulNum serial (Fin 86400000)))"

text \<open>
  The date of a row, as every scan decodes its first cell: nothing for a blank cell, a
  day serial for a number above 30000, the runtime's reading of the text otherwise.
  \<open>None\<close> stands for \<open>null\<close> and for an invalid date, which the scans skip alike.
\<close>

definition decodeDate :: "env \<Rightarrow> string \<Rightarrow> int option" where
  "decodeDate e cell =
     (if cell = [] then None
      else if \<not> isNaN cell \<and> gtNum (toNumber cell) 30000 then serialToDate (toNumber cell)
      else parseDate e cell)"

definition isSameMonth :: "env \<Rightarrow> int option \<Rightarrow> bool" where
  "isSameMonth e date =
     (case date of None \<Rightarrow> False
      | Some t \<Rightarrow> fst (yearMonth e t) = fst (yearMonth e (nowTime e))
                \<and> snd (yearMonth e t) = snd (yearMonth e (nowTime e)))"

section \<open>The spreadsheet store\<close>

text \<open>
  A sheet is a grid of text cells, row 1 first; a row may be shorter than the sheet is
  wide, and a cell that is missing reads like an empty one wherever the program looks at
  it (\<open>row[k] || ''\<close>, \<open>!cell\<close>, \<open>get(row, k)\<close>). Reading a range returns the rows as they are
  stored. A write enters text as it is and a number as the sheet displays it.
\<close>

type_synonym row = "string list"
type_synonym grid = "row list"

definition cellOr :: "row \<Rightarrow> nat \<Rightarrow> string" where
  "cellOr r k = (if k < length r then r ! k else [])"

definition rowOr :: "grid \<Rightarrow> nat \<Rightarrow> row" where
  "rowOr g i = (if i < length g then g ! i else [])"

definition entered :: "env \<Rightarrow> jsval \<Rightarrow> string" where
  "entered e v = (case v of JStr s \<Rightarrow> s | JNum n \<Rightarrow> display e n | _ \<Rightarrow> [])"

text \<open>Writing the cells \<open>vals\<close> over the start of a row; cells to the right stay.\<close>

definition overwrite :: "row \<Rightarrow> row \<Rightarrow> row" where
  "overwrite vals old = vals @ drop (length vals) old"

text \<open>
  \<open>values.update\<close> on the range \<open>A<start+1>:K<start+n>\<close>: the rows \<open>vals\<close> go over the rows
  from index \<open>start\<close> on; the grid grows when the range ends below it.
\<close>

definition putRows :: "grid \<Rightarrow> nat \<Rightarrow> row list \<Rightarrow> grid" where
  "putRows g start vals =
     (let g' = g @ replicate (start + length vals - length g) []
      in take start g' @ map2 overwrite vals (take (length vals) (drop start g'))
         @ drop (start + length vals) g')"

text \<open>Writing one cell: the row is filled with empty cells up to the column.\<close>

definition putCell :: "grid \<Rightarrow> nat \<Rightarrow> nat \<Rightarrow> string \<Rightarrow> grid" where
  "putCell g r c v =
     (let g' = g @ replicate (Suc r - length g) [];
          old = g' ! r;
          old' = old @ replicate (Suc c - length old) []
      in g'[r := old'[c := v]])"

text \<open>
  \<open>appendRowsAtoK\<close>. The last row whose column A is not blank is looked for from the
  bottom (\<open>lastRow\<close>, counted from 1, is 0 when there is none); the rows are written right
  below it, from column A.
\<close>

definition lastRow :: "grid \<Rightarrow> nat" where
  "lastRow g = length (dropWhile (\<lambda>r. trim (cellOr r 0) = []) (rev g))"

definition appendRowsAtoK :: "env \<Rightarrow> grid \<Rightarrow> jsval list list \<Rightarrow> grid" where
  "appendRowsAtoK e sheet vals =
     (if vals = [] then sheet
      else putRows sheet (lastRow sheet) (map (map (entered e)) vals))"

text \<open>
  The store of one client: the three order sheets and the counter cell
  \<open>'Serial Numbers'!B2\<close>. The program finds a client's store by its spreadsheet id.
\<close>

record store =
  waiting :: grid
  finalOrders :: grid
  cancelledOrders :: grid
  serialB2 :: string

type_synonym stores = "string \<Rightarrow> store"

section \<open>Identity resolver\<close>

text \<open>
  The master credential spreadsheet has one tab per client. The user rows are read from
  \<open>A2:Z\<close> of a tab and the id of the client's own spreadsheet from its cell \<open>F2\<close>. Tabs
  without a title and the tabs \<open>Config\<close> and \<open>Readme\<close> are not client tabs.
\<close>

record tab =
  title :: string
  cells :: grid

type_synonym master = "tab list"

record userInfo =
  uiTab :: string
  uiBranch :: string
  uiRestricted :: bool
  uiLevel :: string
  uiPaperMode :: bool
  uiBudgetSheetId :: string

text \<open>What a helper can throw: the \<open>Error\<close> for a blank \<open>F2\<close>, naming the tab, and a \<open>TypeError\<close>.\<close>

datatype failure = BudgetSheetIdMissing string | TypeError

definition clientTabs :: "master \<Rightarrow> tab list" where
  "clientTabs m = filter (\<lambda>t. title t \<noteq> [] \<and> title t \<noteq> ''Config'' \<and> title t \<noteq> ''Readme'') m"

definition credentialRows :: "tab \<Rightarrow> grid" where
  "credentialRows t = map (take 26) (drop 1 (cells t))"

definition idCell :: "tab \<Rightarrow> string" where
  "idCell t = trim (cellOr (rowOr (cells t) 1) 5)"

text \<open>The fields of a matched user row, and the throw when \<open>F2\<close> of its tab is blank.\<close>

definition userOfRow :: "tab \<Rightarrow> row \<Rightarrow> failure + userInfo" where
  "userOfRow t r =
     (let branch = trim (cellOr r 2);
          restricted = (toUpperCase (trim (cellOr r 3)) = ''Y'');
          level = (if toUpperCase (trim (cellOr r 4)) = [] then ''L1''
                   else toUpperCase (trim (cellOr r 4)));
          paperMode = (toUpperCase (trim (cellOr r 25)) = ''Y'');
          budgetSheetId = idCell t
      in if budgetSheetId = [] then Inl (BudgetSheetIdMissing (title t))
         else Inr \<lparr>uiTab = title t, uiBranch = branch, uiRestricted = restricted,
                  uiLevel = level, uiPaperMode = paperMode, uiBudgetSheetId = budgetSheetId\<rparr>)"

text \<open>
  \<open>findClientTabAndSheetIdByUser\<close>: the stored user name is trimmed, the stored password
  is not; a row with neither is skipped.
\<close>

definition loginRow :: "string \<Rightarrow> string \<Rightarrow> row \<Rightarrow> bool" where
  "loginRow username password r =
     (let u = trim (cellOr r 0); p = cellOr r 1
      in \<not> (u = [] \<and> p = []) \<and> u = username \<and> p = password)"

fun findLogin :: "tab list \<Rightarrow> string \<Rightarrow> string \<Rightarrow> failure + userInfo option" where
  "findLogin [] username password = Inr None"
| "findLogin (t # ts) username password =
     (case find (loginRow username password) (credentialRows t) of
        Some r \<Rightarrow> (case userOfRow t r of Inl err \<Rightarrow> Inl err | Inr u \<Rightarrow> Inr (Some u))
      | None \<Rightarrow> findLogin ts username password)"

definition findClientTabAndSheetIdByUser ::
    "master \<Rightarrow> string \<Rightarrow> string \<Rightarrow> failure + userInfo option" where
  "findClientTabAndSheetIdByUser m username password = findLogin (clientTabs m) username password"

text \<open>\<open>getUserInfoByUsername\<close>: the same scan on the user name alone.\<close>

definition userRow :: "string \<Rightarrow> row \<Rightarrow> bool" where
  "userRow username r = (let u = trim (cellOr r 0) in u \<noteq> [] \<and> u = username)"

fun findUser :: "tab list \<Rightarrow> string \<Rightarrow> failure + userInfo option" where
  "findUser [] username = Inr None"
| "findUser (t # ts) username =
     (case find (userRow username) (credentialRows t) of
        Some r \<Rightarrow> (case userOfRow t r of Inl err \<Rightarrow> Inl err | Inr u \<Rightarrow> Inr (Some u))
      | None \<Rightarrow> findUser ts username)"

definition getUserInfoByUsername :: "master \<Rightarrow> string \<Rightarrow> failure + userInfo option" where
  "getUserInfoByUsername m username = findUser (clientTabs m) username"

section \<open>Serial generator\<close>

text \<open>
  \<open>getNextOrderSerial\<close>. The read of the counter cell sits in a \<open>try\<close> block: \<open>readFails\<close>
  says that the read threw, and then the current serial is the empty text. The write goes
  back to the same cell.
\<close>

definition currentNumOf :: "string \<Rightarrow> jsnum" where
  "currentNumOf currentSerial =
     (let upper = toUpperCase currentSerial in
      if upper \<noteq> [] \<and> startsWith upper ''AA'' then
        (let parsed = numOfInt (parseIntRadix 10 (trim (drop 2 upper)))
         in if parsed \<noteq> NaN \<and> geNum parsed 0 then parsed else Fin 0)
      else Fin 0)"

definition getNextOrderSerial :: "bool \<Rightarrow> store \<Rightarrow> string \<times> store" where
  "getNextOrderSerial readFails st =
     (let currentSerial = (if readFails then [] else trim (serialB2 st));
          currentNum = currentNumOf currentSerial;
          newNum = addNum currentNum (Fin 1);
          newSerial = ''AA'' @ numberText newNum
      in (newSerial, st\<lparr>serialB2 := newSerial\<rparr>))"

section \<open>Responses\<close>

text \<open>
  The messages of the failure responses; the program sends each as a fixed Arabic or
  English text. The name says what the text says.
\<close>

datatype message =
    BadCredentials | SystemError | MissingUsername | IncompleteData | UserNotFound
  | ApprovalNotAllowed | ApprovalsLoadError | DetailsLoadError | PendingLoadError
  | NoPendingForBranch | BranchApproveError
  | CannotApproveStatus | NoPendingForSerial | ApproveError
  | CannotEditStatus | EditNotAllowed | NoLinesToEdit | SaveError
  | CannotCancelStatus | CancelNotAllowed | CancelError
  | OrderDataIncomplete | UserDataInvalid | BranchNotAllowed | SubmitError
  | ListNotAllowed | ListLoadError | DetailsNotAllowed
  | ExportNotAllowed | NoDataForOrders | NoDataForOrder | ExportError

text \<open>The \<open>user\<close> object of a successful login.\<close>

record user =
  uUsername :: string
  uBranch :: string
  uUserType :: string
  uRestricted :: bool
  uPaperMode :: bool
  uLevel :: string

text \<open>One order line as the scans report it.\<close>

record item =
  iCode :: string
  iName :: string
  iPrice :: jsnum
  iQty :: jsnum
  iSubtotal :: jsnum
  iCategory :: string

text \<open>
  \<open>requestedBy\<close> of an order: empty, the one user who entered its lines, or the fixed text
  that says there were several.
\<close>

datatype requester = Nobody | Single string | SeveralUsers

record branchSummary =
  bsBranchName :: string
  bsTotalAmount :: jsnum
  bsTotalQty :: jsnum
  bsLines :: nat

record orderView =
  ovOrderId :: string
  ovSerial :: string
  ovBranchName :: string
  ovStatus :: string
  ovRequestedBy :: requester
  ovCreatedAt :: string
  ovTotal :: jsnum
  ovItems :: "item list"

text \<open>A row of an exported worksheet: the serial, status, branch, requester and date of its
  order, then the line.\<close>

record exportLine =
  xSerial :: string
  xStatus :: string
  xBranch :: string
  xRequestedBy :: requester
  xCreatedAt :: string
  xItem :: item

text \<open>
  The body of a response. \<open>Failure\<close> is \<open>{success: false, message}\<close>; the others are the
  bodies of the successful answers (\<open>Workbook\<close> is the file of an export, \<open>None\<close> a blank
  row in it).
\<close>

datatype body =
    Failure message
  | LoginOk user
  | Done
  | Submitted string
  | Branches "branchSummary list"
  | BranchDetails string "item list"
  | Orders "orderView list"
  | OrderDetails string string string "item list"
  | Workbook "exportLine option list"

record response =
  status :: nat
  body :: body

definition failWith :: "nat \<Rightarrow> message \<Rightarrow> response" where
  "failWith code msg = \<lparr>status = code, body = Failure msg\<rparr>"

text \<open>\<open>res.json(b)\<close> without a status: the status is 200.\<close>

definition json :: "body \<Rightarrow> response" where
  "json b = \<lparr>status = 200, body = b\<rparr>"

section \<open>Login\<close>

definition validateLogin :: "master \<Rightarrow> string \<Rightarrow> string \<Rightarrow> response" where
  "validateLogin m username password =
     (case findClientTabAndSheetIdByUser m username password of
        Inl err \<Rightarrow> failWith 500 SystemError
      | Inr None \<Rightarrow> json (Failure BadCredentials)
      | Inr (Some match) \<Rightarrow>
          json (LoginOk \<lparr>uUsername = username, uBranch = uiBranch match, uUserType = ''tasa'',
                         uRestricted = uiRestricted match, uPaperMode = uiPaperMode match,
                         uLevel = (if uiLevel match = [] then ''L1'' else uiLevel match)\<rparr>))"

text \<open>
  The start of every endpoint for approvers: the user is looked up by name (a throw of the
  lookup ends in the handler's 500), must exist (400) and must have level \<open>L2\<close> (403).
\<close>

definition requireL2 :: "master \<Rightarrow> string \<Rightarrow> message \<Rightarrow> message \<Rightarrow> response + userInfo" where
  "requireL2 m username notAllowed failed =
     (case getUserInfoByUsername m username of
        Inl err \<Rightarrow> Inl (failWith 500 failed)
      | Inr None \<Rightarrow> Inl (failWith 400 UserNotFound)
      | Inr (Some u) \<Rightarrow>
          if toUpperCase (uiLevel u) \<noteq> ''L2'' then Inl (failWith 403 notAllowed) else Inr u)"

section \<open>Order ledger: the scans that move and edit rows\<close>

text \<open>
  Every scan starts at the second row of a sheet (the first is the header row) and keeps a
  row only when its date decodes to the current month. \<open>currentDate\<close> is the date of a row
  that the scan keeps.
\<close>

definition currentDate :: "env \<Rightarrow> row \<Rightarrow> int option" where
  "currentDate e r =
     (case decodeDate e (cellOr r 0) of
        None \<Rightarrow> None
      | Some t \<Rightarrow> if isSameMonth e (Some t) then Some t else None)"

definition inMonth :: "env \<Rightarrow> row \<Rightarrow> bool" where
  "inMonth e r = (currentDate e r \<noteq> None)"

text \<open>The order id of a request, \<open>AA13__waiting\<close> or \<open>AA13\<close>: its serial and its status.\<close>

definition serialOf :: "string \<Rightarrow> string" where
  "serialOf composite = trim (pieceOr (splitUnderscores [] composite) 0)"

definition statusOf :: "string \<Rightarrow> string" where
  "statusOf composite =
     (let status = toLowerCase (trim (pieceOr (splitUnderscores [] composite) 1))
      in if status = [] then ''waiting'' else status)"

text \<open>\<open>rowsToClear\<close>: the indices of the rows of the current month with the serial.\<close>

definition serialRows :: "env \<Rightarrow> grid \<Rightarrow> string \<Rightarrow> nat list" where
  "serialRows e rows orderSerial =
     filter (\<lambda>i. inMonth e (rows ! i) \<and> trim (cellOr (rows ! i) 10) = orderSerial)
       [1..<length rows]"

definition branchRows :: "env \<Rightarrow> grid \<Rightarrow> string \<Rightarrow> nat list" where
  "branchRows e rows branchName =
     filter (\<lambda>i. inMonth e (rows ! i) \<and> trim (cellOr (rows ! i) 1) = branchName)
       [1..<length rows]"

text \<open>The copy of a row that is appended to the target sheet: its cells A to K.\<close>

definition copyAtoK :: "row \<Rightarrow> jsval list" where
  "copyAtoK r = map (\<lambda>k. JStr (cellOr r k)) [0..<11]"

text \<open>The batch that clears the moved rows: eleven empty cells over A to K of each.\<close>

definition clearRows :: "grid \<Rightarrow> nat list \<Rightarrow> grid" where
  "clearRows g idxs = foldl (\<lambda>g' idx. putRows g' idx [replicate 11 []]) g idxs"

definition approveOrder ::
    "env \<Rightarrow> master \<Rightarrow> string \<Rightarrow> string \<Rightarrow> string \<Rightarrow> stores \<Rightarrow> response \<times> stores" where
  "approveOrder e m username orderId serial ss =
     (let composite = (if orderId \<noteq> [] then orderId else serial);
          orderSerial = serialOf composite;
          status = statusOf composite
      in if username = [] \<or> orderSerial = [] then (failWith 400 IncompleteData, ss)
         else if status \<noteq> ''waiting'' then (failWith 400 CannotApproveStatus, ss)
         else (case requireL2 m username ApprovalNotAllowed ApproveError of
                 Inl r \<Rightarrow> (r, ss)
               | Inr u \<Rightarrow>
                   (let sid = uiBudgetSheetId u;
                        st = ss sid;
                        rows = waiting st;
                        rowsToClear = serialRows e rows orderSerial
                    in if rowsToClear = [] then (failWith 400 NoPendingForSerial, ss)
                       else
                         (let appendValues = map (\<lambda>idx. copyAtoK (rows ! idx)) rowsToClear;
                              final' = appendRowsAtoK e (finalOrders st) appendValues;
                              waiting' = clearRows rows rowsToClear
                          in (json Done,
                              ss(sid := st\<lparr>waiting := waiting', finalOrders := final'\<rparr>))))))"

definition cancelOrder ::
    "env \<Rightarrow> master \<Rightarrow> string \<Rightarrow> string \<Rightarrow> stores \<Rightarrow> response \<times> stores" where
  "cancelOrder e m username orderId ss =
     (let orderSerial = serialOf orderId;
          status = statusOf orderId
      in if username = [] \<or> orderSerial = [] then (failWith 400 IncompleteData, ss)
         else if status \<noteq> ''waiting'' then (failWith 400 CannotCancelStatus, ss)
         else (case requireL2 m username CancelNotAllowed CancelError of
                 Inl r \<Rightarrow> (r, ss)
               | Inr u \<Rightarrow>
                   (let sid = uiBudgetSheetId u;
                        st = ss sid;
                        rows = waiting st;
                        rowsToClear = serialRows e rows orderSerial
                    in if rowsToClear = [] then (failWith 400 NoPendingForSerial, ss)
                       else
                         (let appendValues = map (\<lambda>idx. copyAtoK (rows ! idx)) rowsToClear;
                              cancelled' = appendRowsAtoK e (cancelledOrders st) appendValues;
                              waiting' = clearRows rows rowsToClear
                          in (json Done,
                              ss(sid := st\<lparr>waiting := waiting', cancelledOrders := cancelled'\<rparr>))))))"

definition approveBranchOrder ::
    "env \<Rightarrow> master \<Rightarrow> string \<Rightarrow> string \<Rightarrow> stores \<Rightarrow> response \<times> stores" where
  "approveBranchOrder e m username branchName ss =
     (if username = [] \<or> branchName = [] then (failWith 400 IncompleteData, ss)
      else (case requireL2 m username ApprovalNotAllowed BranchApproveError of
              Inl r \<Rightarrow> (r, ss)
            | Inr u \<Rightarrow>
                (let sid = uiBudgetSheetId u;
                     st = ss sid;
                     rows = waiting st;
                     rowsToClear = branchRows e rows branchName
                 in if rowsToClear = [] then (failWith 400 NoPendingForBranch, ss)
                    else
                      (let appendValues = map (\<lambda>idx. copyAtoK (rows ! idx)) rowsToClear;
                           final' = appendRowsAtoK e (finalOrders st) appendValues;
                           waiting' = clearRows rows rowsToClear
                       in (json Done,
                           ss(sid := st\<lparr>waiting := waiting', finalOrders := final'\<rparr>))))))"

subsection \<open>Editing a waiting order\<close>

text \<open>
  The rows of the serial are indexed by product code in a plain object: a later row with
  the same code replaces the earlier one. Reading a key of such an object also finds the
  members it inherits from \<open>Object.prototype\<close>, and assigning a number to \<open>__proto__\<close>
  stores nothing.
\<close>

definition objectPrototypeKeys :: "string list" where
  "objectPrototypeKeys =
     [''constructor'', ''__defineGetter__'', ''__defineSetter__'', ''hasOwnProperty'',
      ''__lookupGetter__'', ''__lookupSetter__'', ''isPrototypeOf'', ''propertyIsEnumerable'',
      ''toString'', ''valueOf'', ''__proto__'', ''toLocaleString'']"

datatype lookup = Missing | Own nat | Inherited

definition indexStep ::
    "env \<Rightarrow> grid \<Rightarrow> string \<Rightarrow> (string \<rightharpoonup> nat) \<Rightarrow> nat \<Rightarrow> (string \<rightharpoonup> nat)" where
  "indexStep e rows orderSerial index i =
     (let r = rows ! i in
      if \<not> inMonth e r then index
      else if trim (cellOr r 10) \<noteq> orderSerial then index
      else (let code = cellOr r 3 in
            if code = [] then index
            else if code = ''__proto__'' then index
            else index(code \<mapsto> i)))"

definition buildIndex :: "env \<Rightarrow> grid \<Rightarrow> string \<Rightarrow> (string \<rightharpoonup> nat)" where
  "buildIndex e rows orderSerial = foldl (indexStep e rows orderSerial) Map.empty [1..<length rows]"

definition lookupIndex :: "(string \<rightharpoonup> nat) \<Rightarrow> string \<Rightarrow> lookup" where
  "lookupIndex index code =
     (case index code of
        Some i \<Rightarrow> Own i
      | None \<Rightarrow> if code \<in> set objectPrototypeKeys then Inherited else Missing)"

record editItem =
  eiProductCode :: string
  eiQuantity :: jsval

text \<open>
  A write of one cell in a batch: the row number in the sheet (from 1), the column (from
  0: G is 6 and I is 8) and the value. An item whose code finds an inherited member gets
  no row, and reading the price of no row throws.
\<close>

type_synonym cellWrite = "nat \<times> nat \<times> jsval"

fun editBatch :: "grid \<Rightarrow> (string \<rightharpoonup> nat) \<Rightarrow> editItem list \<Rightarrow> failure + cellWrite list" where
  "editBatch rows index [] = Inr []"
| "editBatch rows index (it # items) =
     (let code = eiProductCode it in
      if code = [] then editBatch rows index items
      else (case lookupIndex index code of
              Missing \<Rightarrow> editBatch rows index items
            | Inherited \<Rightarrow> Inl TypeError
            | Own rowIdx \<Rightarrow>
                (let r = rows ! rowIdx;
                     unitPrice = orNum (parseFloat (cellOr r 5)) (Fin 0);
                     qty = max0 (orNum (parseIntOf (eiQuantity it)) (Fin 0));
                     subtotal = mulNum unitPrice qty;
                     excelRow = rowIdx + 1
                 in case editBatch rows index items of
                      Inl err \<Rightarrow> Inl err
                    | Inr rest \<Rightarrow>
                        Inr ((excelRow, 8, JNum qty) # (excelRow, 6, JNum subtotal) # rest))))"

definition applyBatch :: "env \<Rightarrow> grid \<Rightarrow> cellWrite list \<Rightarrow> grid" where
  "applyBatch e g batch = foldl (\<lambda>g' (r, c, v). putCell g' (r - 1) c (entered e v)) g batch"

definition updateWaitingOrder ::
    "env \<Rightarrow> master \<Rightarrow> string \<Rightarrow> string \<Rightarrow> editItem list \<Rightarrow> stores \<Rightarrow> response \<times> stores" where
  "updateWaitingOrder e m username orderId items ss =
     (let orderSerial = serialOf orderId;
          status = statusOf orderId
      in if username = [] \<or> orderSerial = [] \<or> items = [] then (failWith 400 IncompleteData, ss)
         else if status \<noteq> ''waiting'' then (failWith 400 CannotEditStatus, ss)
         else (case requireL2 m username EditNotAllowed SaveError of
                 Inl r \<Rightarrow> (r, ss)
               | Inr u \<Rightarrow>
                   (let sid = uiBudgetSheetId u;
                        st = ss sid;
                        rows = waiting st;
                        index = buildIndex e rows orderSerial
                    in case editBatch rows index items of
                         Inl err \<Rightarrow> (failWith 500 SaveError, ss)
                       | Inr batch \<Rightarrow>
                           if batch = [] then (failWith 400 NoLinesToEdit, ss)
                           else (json Done,
                                 ss(sid := st\<lparr>waiting := applyBatch e rows batch\<rparr>)))))"

subsection \<open>Submitting an order\<close>

record orderItem =
  oiProductCode :: string
  oiProductName :: string
  oiUnitPrice :: jsval
  oiQuantity :: jsval
  oiSubtotal :: jsval
  oiCategory :: string

definition orderRow :: "env \<Rightarrow> string \<Rightarrow> string \<Rightarrow> string \<Rightarrow> orderItem \<Rightarrow> jsval list" where
  "orderRow e branchName username orderSerial i =
     (let price = orNum (numberOf (oiUnitPrice i)) (Fin 0);
          qty = orNum (numberOf (oiQuantity i)) (Fin 0);
          subtotal = (if isNumber (oiSubtotal i) then numberOf (oiSubtotal i) else mulNum price qty);
          cat = oiCategory i
      in [JStr (nowStamp e), JStr branchName, JStr username, JStr (oiProductCode i),
          JStr (oiProductName i), JNum price, JNum subtotal, JStr cat, JNum qty, JStr [],
          JStr orderSerial])"

definition submitOrder ::
    "env \<Rightarrow> bool \<Rightarrow> master \<Rightarrow> string \<Rightarrow> orderItem list \<Rightarrow> string \<Rightarrow> stores \<Rightarrow> response \<times> stores" where
  "submitOrder e readFails m branchName orderItems username ss =
     (if branchName = [] \<or> orderItems = [] then (failWith 400 OrderDataIncomplete, ss)
      else (case getUserInfoByUsername m username of
              Inl err \<Rightarrow> (failWith 500 SubmitError, ss)
            | Inr None \<Rightarrow> (failWith 400 UserDataInvalid, ss)
            | Inr (Some u) \<Rightarrow>
                (let sid = uiBudgetSheetId u;
                     userLevel = toUpperCase (if uiLevel u = [] then ''L1'' else uiLevel u);
                     userBranch = trim (uiBranch u)
                 in if userLevel \<noteq> ''L2'' \<and> userBranch \<noteq> [] \<and> userBranch \<noteq> branchName
                    then (failWith 403 BranchNotAllowed, ss)
                    else
                      (let (orderSerial, st) = getNextOrderSerial readFails (ss sid);
                           appendValues = map (orderRow e branchName username orderSerial) orderItems;
                           st' = (if userLevel = ''L2''
                                  then st\<lparr>finalOrders := appendRowsAtoK e (finalOrders st) appendValues\<rparr>
                                  else st\<lparr>waiting := appendRowsAtoK e (waiting st) appendValues\<rparr>)
                       in (json (Submitted orderSerial), ss(sid := st'))))))"

section \<open>Order ledger: the scans that report\<close>

text \<open>
  The price, quantity and subtotal of a stored row, as every reporting scan reads them: a
  cell that does not parse, or parses to 0, gives way to 0 for price and quantity and to
  price times quantity for the subtotal. The image of the product, which the responses
  join from the catalog sheet, is not an order cell and is left out of the model.
\<close>

definition lineItem :: "row \<Rightarrow> item" where
  "lineItem r =
     (let unitPrice = orNum (parseFloat (cellOr r 5)) (Fin 0);
          qty = orNum (parseInt (cellOr r 8)) (Fin 0);
          subtotal = orNum (parseFloat (cellOr r 6)) (mulNum unitPrice qty)
      in \<lparr>iCode = cellOr r 3, iName = cellOr r 4, iPrice = unitPrice, iQty = qty,
          iSubtotal = subtotal, iCategory = cellOr r 7\<rparr>)"

text \<open>
  The objects that the scans use as dictionaries are association lists in the order of
  first insertion. (Keys naming members of \<open>Object.prototype\<close>, and the order in which
  JavaScript lists keys that are array indices, are outside the model of these
  dictionaries.) A \<open>Set\<close> of requesters is a list without repetition.
\<close>

definition setAdd :: "string \<Rightarrow> string list \<Rightarrow> string list" where
  "setAdd x xs = (if x \<in> set xs then xs else xs @ [x])"

definition requesterOf :: "string list \<Rightarrow> requester" where
  "requesterOf rs = (case rs of [] \<Rightarrow> Nobody | [x] \<Rightarrow> Single x | _ \<Rightarrow> SeveralUsers)"

subsection \<open>Totals of the waiting lines by branch\<close>

definition summaryStep ::
    "env \<Rightarrow> (string \<times> branchSummary) list \<Rightarrow> row \<Rightarrow> (string \<times> branchSummary) list" where
  "summaryStep e summary r =
     (if \<not> inMonth e r then summary
      else (let branch = trim (cellOr r 1) in
            if branch = [] then summary
            else (let it = lineItem r;
                      old = (case map_of summary branch of
                               None \<Rightarrow> \<lparr>bsBranchName = branch, bsTotalAmount = Fin 0,
                                         bsTotalQty = Fin 0, bsLines = 0\<rparr>
                             | Some b \<Rightarrow> b)
                  in AList.update branch
                       (old\<lparr>bsTotalAmount := addNum (bsTotalAmount old) (iSubtotal it),
                            bsTotalQty := addNum (bsTotalQty old) (iQty it),
                            bsLines := bsLines old + 1\<rparr>) summary)))"

definition approvalsSummary :: "env \<Rightarrow> master \<Rightarrow> string \<Rightarrow> stores \<Rightarrow> response" where
  "approvalsSummary e m usernameQuery ss =
     (let username = trim usernameQuery in
      if username = [] then failWith 400 MissingUsername
      else (case requireL2 m username ApprovalNotAllowed ApprovalsLoadError of
              Inl r \<Rightarrow> r
            | Inr u \<Rightarrow>
                (let rows = waiting (ss (uiBudgetSheetId u))
                 in json (Branches (map snd (foldl (summaryStep e) [] (drop 1 rows)))))))"

subsection \<open>The waiting lines of one branch\<close>

definition approvalDetails :: "env \<Rightarrow> master \<Rightarrow> string \<Rightarrow> string \<Rightarrow> stores \<Rightarrow> response" where
  "approvalDetails e m usernameQuery branchNameQuery ss =
     (let username = trim usernameQuery;
          branchName = trim branchNameQuery
      in if username = [] \<or> branchName = [] then failWith 400 IncompleteData
         else (case requireL2 m username ApprovalNotAllowed DetailsLoadError of
                 Inl r \<Rightarrow> r
               | Inr u \<Rightarrow>
                   (let rows = waiting (ss (uiBudgetSheetId u));
                        items = map lineItem
                                  (filter (\<lambda>r. inMonth e r \<and> trim (cellOr r 1) = branchName)
                                     (drop 1 rows))
                    in json (BranchDetails branchName items))))"

subsection \<open>The waiting lines grouped by branch\<close>

record pendingEntry =
  peBranchName :: string
  peTotal :: jsnum
  peCreatedAt :: int
  peRequestors :: "string list"
  peItems :: "item list"

definition pendingStep ::
    "env \<Rightarrow> (string \<times> pendingEntry) list \<Rightarrow> row \<Rightarrow> (string \<times> pendingEntry) list" where
  "pendingStep e ordersByBranch r =
     (case currentDate e r of
        None \<Rightarrow> ordersByBranch
      | Some date \<Rightarrow>
          (let branchName = trim (cellOr r 1) in
           if branchName = [] then ordersByBranch
           else (let requestedBy = trim (cellOr r 2);
                     it = lineItem r;
                     entry = (case map_of ordersByBranch branchName of
                                None \<Rightarrow> \<lparr>peBranchName = branchName, peTotal = Fin 0,
                                          peCreatedAt = date, peRequestors = [], peItems = []\<rparr>
                              | Some en \<Rightarrow> en)
                 in AList.update branchName
                      (entry\<lparr>peTotal := addNum (peTotal entry) (iSubtotal it),
                             peItems := peItems entry @ [it],
                             peRequestors := (if requestedBy \<noteq> []
                                              then setAdd requestedBy (peRequestors entry)
                                              else peRequestors entry),
                             peCreatedAt := (if date < peCreatedAt entry then date
                                             else peCreatedAt entry)\<rparr>)
                      ordersByBranch)))"

definition pendingView :: "env \<Rightarrow> pendingEntry \<Rightarrow> orderView" where
  "pendingView e entry =
     \<lparr>ovOrderId = peBranchName entry, ovSerial = [], ovBranchName = peBranchName entry,
      ovStatus = [], ovRequestedBy = requesterOf (peRequestors entry),
      ovCreatedAt = formatTime e (peCreatedAt entry), ovTotal = peTotal entry,
      ovItems = peItems entry\<rparr>"

definition pendingOrders :: "env \<Rightarrow> master \<Rightarrow> string \<Rightarrow> stores \<Rightarrow> response" where
  "pendingOrders e m usernameQuery ss =
     (let username = trim usernameQuery in
      if username = [] then failWith 400 MissingUsername
      else (case requireL2 m username ApprovalNotAllowed PendingLoadError of
              Inl r \<Rightarrow> r
            | Inr u \<Rightarrow>
                (let rows = waiting (ss (uiBudgetSheetId u))
                 in json (Orders (map (pendingView e \<circ> snd)
                                    (foldl (pendingStep e) [] (drop 1 rows)))))))"

subsection \<open>All orders of the month by serial and status\<close>

record orderEntry =
  oeSerial :: string
  oeBranchName :: string
  oeStatus :: string
  oeTotal :: jsnum
  oeCreatedAt :: int
  oeRequestors :: "string list"
  oeItems :: "item list"

definition orderStep ::
    "env \<Rightarrow> string \<Rightarrow> (string \<times> orderEntry) list \<Rightarrow> row \<Rightarrow> (string \<times> orderEntry) list" where
  "orderStep e statusKey summaryMap r =
     (case currentDate e r of
        None \<Rightarrow> summaryMap
      | Some date \<Rightarrow>
          (let branchName = trim (cellOr r 1) in
           if branchName = [] then summaryMap
           else (let requestedByVal = trim (cellOr r 2);
                     it = lineItem r;
                     serial = trim (cellOr r 10)
                 in if serial = [] then summaryMap
                    else (let key = serial @ ''__'' @ statusKey;
                              entry = (case map_of summaryMap key of
                                         None \<Rightarrow> \<lparr>oeSerial = serial, oeBranchName = branchName,
                                                   oeStatus = statusKey, oeTotal = Fin 0,
                                                   oeCreatedAt = date, oeRequestors = [],
                                                   oeItems = []\<rparr>
                                       | Some en \<Rightarrow> en)
                          in AList.update key
                               (entry\<lparr>oeTotal := addNum (oeTotal entry) (iSubtotal it),
                                      oeCreatedAt := (if date < oeCreatedAt entry then date
                                                      else oeCreatedAt entry),
                                      oeRequestors := (if requestedByVal \<noteq> []
                                                       then setAdd requestedByVal (oeRequestors entry)
                                                       else oeRequestors entry),
                                      oeItems := oeItems entry @ [it]\<rparr>)
                               summaryMap))))"

definition processSheet ::
    "env \<Rightarrow> string \<Rightarrow> (string \<times> orderEntry) list \<Rightarrow> grid \<Rightarrow> (string \<times> orderEntry) list" where
  "processSheet e statusKey summaryMap rows =
     (if length rows \<le> 1 then summaryMap
      else foldl (orderStep e statusKey) summaryMap (drop 1 rows))"

definition orderViewOf :: "env \<Rightarrow> orderEntry \<Rightarrow> orderView" where
  "orderViewOf e entry =
     \<lparr>ovOrderId = oeSerial entry @ ''__'' @ toLowerCase (oeStatus entry),
      ovSerial = oeSerial entry, ovBranchName = oeBranchName entry, ovStatus = oeStatus entry,
      ovRequestedBy = requesterOf (oeRequestors entry),
      ovCreatedAt = formatTime e (oeCreatedAt entry), ovTotal = oeTotal entry,
      ovItems = oeItems entry\<rparr>"

text \<open>
  The read of the sheet of cancelled orders sits in a \<open>try\<close> block of its own:
  \<open>cancelledReadFails\<close> says that it threw, and then the sheet is passed over.
\<close>

definition handleOrdersSummaryForL2 ::
    "env \<Rightarrow> bool \<Rightarrow> master \<Rightarrow> string \<Rightarrow> stores \<Rightarrow> response" where
  "handleOrdersSummaryForL2 e cancelledReadFails m usernameQuery ss =
     (let username = trim usernameQuery in
      if username = [] then failWith 400 MissingUsername
      else (case requireL2 m username ListNotAllowed ListLoadError of
              Inl r \<Rightarrow> r
            | Inr u \<Rightarrow>
                (let st = ss (uiBudgetSheetId u);
                     m1 = processSheet e ''Waiting'' [] (waiting st);
                     m2 = processSheet e ''Approved'' m1 (finalOrders st);
                     m3 = (if cancelledReadFails then m2
                           else processSheet e ''Cancelled'' m2 (cancelledOrders st))
                 in json (Orders (map (orderViewOf e \<circ> snd) m3)))))"

subsection \<open>The lines of one branch or one serial in a sheet\<close>

definition detailStep ::
    "env \<Rightarrow> string \<Rightarrow> string \<Rightarrow> string \<times> item list \<Rightarrow> row \<Rightarrow> string \<times> item list" where
  "detailStep e branchNameQuery serialQuery acc r =
     (if \<not> inMonth e r then acc
      else (let rowBranch = trim (cellOr r 1);
                rowSerial = trim (cellOr r 10);
                effectiveBranchName = fst acc;
                items = snd acc
            in if serialQuery \<noteq> [] then
                 (if rowSerial \<noteq> serialQuery then acc
                  else ((if effectiveBranchName = [] \<and> rowBranch \<noteq> [] then rowBranch
                         else effectiveBranchName),
                        items @ [lineItem r]))
               else (if rowBranch \<noteq> branchNameQuery then acc
                     else (effectiveBranchName, items @ [lineItem r]))))"

definition handleOrderDetailsForL2 ::
    "env \<Rightarrow> master \<Rightarrow> string \<Rightarrow> string \<Rightarrow> string \<Rightarrow> string \<Rightarrow> stores \<Rightarrow> response" where
  "handleOrderDetailsForL2 e m usernameQuery branchNameRaw statusQuery serialRaw ss =
     (let username = trim usernameQuery;
          branchNameQuery = trim branchNameRaw;
          statusRaw = toLowerCase (trim statusQuery);
          serialQuery = trim serialRaw
      in if username = [] \<or> (branchNameQuery = [] \<and> serialQuery = [])
         then failWith 400 IncompleteData
         else
           (let status = (if statusRaw = ''approved'' then ''approved''
                          else if statusRaw = ''cancelled'' then ''cancelled'' else ''waiting'')
            in case requireL2 m username DetailsNotAllowed DetailsLoadError of
                 Inl r \<Rightarrow> r
               | Inr u \<Rightarrow>
                   (let st = ss (uiBudgetSheetId u);
                        rows = (if status = ''waiting'' then waiting st
                                else if status = ''approved'' then finalOrders st
                                else cancelledOrders st);
                        found = foldl (detailStep e branchNameQuery serialQuery)
                                  (branchNameQuery, []) (drop 1 rows)
                    in json (OrderDetails (fst found) serialQuery status (snd found)))))"

subsection \<open>Export\<close>

text \<open>\<open>s.split(',')\<close>.\<close>

fun splitChar :: "char \<Rightarrow> string \<Rightarrow> string \<Rightarrow> string list" where
  "splitChar sep cur [] = [rev cur]"
| "splitChar sep cur (c # cs) =
     (if c = sep then rev cur # splitChar sep [] cs else splitChar sep (c # cur) cs)"

record exportEntry =
  xeSerial :: string
  xeStatus :: string
  xeBranchName :: string
  xeCreatedAt :: int
  xeRequestors :: "string list"
  xeItems :: "item list"

text \<open>
  Several serials in one file: one entry per serial, whose status is the sheet that was
  read last for it.
\<close>

definition exportStep ::
    "env \<Rightarrow> string list \<Rightarrow> string \<Rightarrow> (string \<times> exportEntry) list \<Rightarrow> row
      \<Rightarrow> (string \<times> exportEntry) list" where
  "exportStep e selectedSerials statusKey ordersMap r =
     (case currentDate e r of
        None \<Rightarrow> ordersMap
      | Some date \<Rightarrow>
          (let branchName = trim (cellOr r 1) in
           if branchName = [] then ordersMap
           else (let requestedByVal = trim (cellOr r 2);
                     it = lineItem r;
                     serial = trim (cellOr r 10)
                 in if serial = [] \<or> serial \<notin> set selectedSerials then ordersMap
                    else (let entry = (case map_of ordersMap serial of
                                         None \<Rightarrow> \<lparr>xeSerial = serial, xeStatus = statusKey,
                                                   xeBranchName = branchName, xeCreatedAt = date,
                                                   xeRequestors = [], xeItems = []\<rparr>
                                       | Some en \<Rightarrow> en)
                          in AList.update serial
                               (entry\<lparr>xeStatus := statusKey,
                                      xeCreatedAt := (if date < xeCreatedAt entry then date
                                                      else xeCreatedAt entry),
                                      xeRequestors := (if requestedByVal \<noteq> []
                                                       then setAdd requestedByVal (xeRequestors entry)
                                                       else xeRequestors entry),
                                      xeItems := xeItems entry @ [it]\<rparr>)
                               ordersMap))))"

definition exportSheet ::
    "env \<Rightarrow> string list \<Rightarrow> string \<Rightarrow> (string \<times> exportEntry) list \<Rightarrow> grid
      \<Rightarrow> (string \<times> exportEntry) list" where
  "exportSheet e selectedSerials statusKey ordersMap rows =
     (if length rows \<le> 1 then ordersMap
      else foldl (exportStep e selectedSerials statusKey) ordersMap (drop 1 rows))"

text \<open>The rows of the worksheet: the lines of each entry, then one blank row.\<close>

definition worksheetRows :: "env \<Rightarrow> exportEntry list \<Rightarrow> exportLine option list" where
  "worksheetRows e entries =
     concat (map (\<lambda>entry.
        map (\<lambda>it. Some \<lparr>xSerial = xeSerial entry, xStatus = xeStatus entry,
                          xBranch = xeBranchName entry,
                          xRequestedBy = requesterOf (xeRequestors entry),
                          xCreatedAt = formatTime e (xeCreatedAt entry), xItem = it\<rparr>)
            (xeItems entry) @ [None]) entries)"

definition exportOrdersExcel ::
    "env \<Rightarrow> bool \<Rightarrow> master \<Rightarrow> string \<Rightarrow> string \<Rightarrow> stores \<Rightarrow> response" where
  "exportOrdersExcel e cancelledReadFails m usernameQuery serialsQuery ss =
     (let username = trim usernameQuery;
          serialsParam = trim serialsQuery;
          serials = filter (\<lambda>s. s \<noteq> []) (map trim (splitChar CHR '','' [] serialsParam))
      in if username = [] \<or> serials = [] then failWith 400 IncompleteData
         else (case requireL2 m username ExportNotAllowed ExportError of
                 Inl r \<Rightarrow> r
               | Inr u \<Rightarrow>
                   (let st = ss (uiBudgetSheetId u);
                        m1 = exportSheet e serials ''Waiting'' [] (waiting st);
                        m2 = exportSheet e serials ''Approved'' m1 (finalOrders st);
                        m3 = (if cancelledReadFails then m2
                              else exportSheet e serials ''Cancelled'' m2 (cancelledOrders st))
                    in if m3 = [] then failWith 400 NoDataForOrders
                       else json (Workbook (worksheetRows e (map snd m3))))))"

text \<open>
  One serial in one file: one entry for each status and branch under which the serial is
  found, in the order in which they are met.
\<close>

definition exportOneStep ::
    "env \<Rightarrow> string \<Rightarrow> string \<Rightarrow> ((string \<times> string) \<times> exportEntry) list \<Rightarrow> row
      \<Rightarrow> ((string \<times> string) \<times> exportEntry) list" where
  "exportOneStep e serialQuery statusKey orders r =
     (case currentDate e r of
        None \<Rightarrow> orders
      | Some date \<Rightarrow>
          (let branchName = trim (cellOr r 1) in
           if branchName = [] then orders
           else (let requestedByVal = trim (cellOr r 2);
                     it = lineItem r;
                     serial = trim (cellOr r 10)
                 in if serial = [] \<or> serial \<noteq> serialQuery then orders
                    else (let entry = (case map_of orders (statusKey, branchName) of
                                         None \<Rightarrow> \<lparr>xeSerial = serial, xeStatus = statusKey,
                                                   xeBranchName = branchName, xeCreatedAt = date,
                                                   xeRequestors = [], xeItems = []\<rparr>
                                       | Some en \<Rightarrow> en)
                          in AList.update (statusKey, branchName)
                               (entry\<lparr>xeCreatedAt := (if date < xeCreatedAt entry then date
                                                      else xeCreatedAt entry),
                                      xeRequestors := (if requestedByVal \<noteq> []
                                                       then setAdd requestedByVal (xeRequestors entry)
                                                       else xeRequestors entry),
                                      xeItems := xeItems entry @ [it]\<rparr>)
                               orders))))"

definition exportOneSheet ::
    "env \<Rightarrow> string \<Rightarrow> string \<Rightarrow> ((string \<times> string) \<times> exportEntry) list \<Rightarrow> grid
      \<Rightarrow> ((string \<times> string) \<times> exportEntry) list" where
  "exportOneSheet e serialQuery statusKey orders rows =
     (if length rows \<le> 1 then orders
      else foldl (exportOneStep e serialQuery statusKey) orders (drop 1 rows))"

definition exportOrderExcel ::
    "env \<Rightarrow> bool \<Rightarrow> master \<Rightarrow> string \<Rightarrow> string \<Rightarrow> stores \<Rightarrow> response" where
  "exportOrderExcel e cancelledReadFails m usernameQuery serialRaw ss =
     (let username = trim usernameQuery;
          serialQuery = trim serialRaw
      in if username = [] \<or> serialQuery = [] then failWith 400 IncompleteData
         else (case requireL2 m username ExportNotAllowed ExportError of
                 Inl r \<Rightarrow> r
               | Inr u \<Rightarrow>
                   (let st = ss (uiBudgetSheetId u);
                        o1 = exportOneSheet e serialQuery ''Waiting'' [] (waiting st);
                        o2 = exportOneSheet e serialQuery ''Approved'' o1 (finalOrders st);
                        o3 = (if cancelledReadFails then o2
                              else exportOneSheet e serialQuery ''Cancelled'' o2 (cancelledOrders st))
                    in if o3 = [] then failWith 400 NoDataForOrder
                       else json (Workbook (worksheetRows e (map snd o3))))))"

section \<open>Rows outside the current month\<close>

text \<open>
  \<open>hideOld\<close> blanks every row of a sheet that no scan keeps: the rows whose date is not in
  the current month. \<open>hideStore\<close> does so in the three order sheets of a store.
\<close>

definition hideOld :: "env \<Rightarrow> grid \<Rightarrow> grid" where
  "hideOld e g = map (\<lambda>r. if inMonth e r then r else []) g"

definition hideStore :: "env \<Rightarrow> store \<Rightarrow> store" where
  "hideStore e st =
     st\<lparr>waiting := hideOld e (waiting st), finalOrders := hideOld e (finalOrders st),
        cancelledOrders := hideOld e (cancelledOrders st)\<rparr>"

section \<open>An example host and example data\<close>

text \<open>
  A host for the examples: its own zone is UTC, it reads a date text of the form
  \<open>YYYY-MM-DD HH:MM:SS\<close> (the form the program writes) as local time and no other text,
  Cairo is two hours ahead, and the sheet displays a number in decimal digits with up to
  fifteen places after the point. The calendar is the proleptic Gregorian one, by days
  since the epoch.
\<close>

definition civilOfDays :: "int \<Rightarrow> int \<times> int \<times> int" where
  "civilOfDays days =
     (let z = days + 719468;
          era = z div 146097;
          doe = z - era * 146097;
          yoe = (doe - doe div 1460 + doe div 36524 - doe div 146096) div 365;
          doy = doe - (365 * yoe + yoe div 4 - yoe div 100);
          mp = (5 * doy + 2) div 153;
          d = doy - (153 * mp + 2) div 5 + 1;
          mo = (if mp < 10 then mp + 3 else mp - 9);
          y = yoe + era * 400 + (if mo \<le> 2 then 1 else 0)
      in (y, mo, d))"

definition daysOfCivil :: "int \<Rightarrow> int \<Rightarrow> int \<Rightarrow> int" where
  "daysOfCivil y mo d =
     (let y' = (if mo \<le> 2 then y - 1 else y);
          era = y' div 400;
          yoe = y' - era * 400;
          doy = (153 * (if mo > 2 then mo - 3 else mo + 9) + 2) div 5 + d - 1;
          doe = yoe * 365 + yoe div 4 - yoe div 100 + doy
      in era * 146097 + doe - 719468)"

definition utcYearMonth :: "int \<Rightarrow> int \<times> int" where
  "utcYearMonth t = (case civilOfDays (t div 86400000) of (y, mo, d) \<Rightarrow> (y, mo - 1))"

definition readStamp :: "string \<Rightarrow> int option" where
  "readStamp s =
     (if length s = 19 \<and> s ! 4 = CHR ''-'' \<and> s ! 7 = CHR ''-'' \<and> s ! 10 = CHR '' ''
         \<and> s ! 13 = CHR '':'' \<and> s ! 16 = CHR '':''
         \<and> list_all isDigit (take 4 s @ take 2 (drop 5 s) @ take 2 (drop 8 s)
              @ take 2 (drop 11 s) @ take 2 (drop 14 s) @ take 2 (drop 17 s))
      then
        (let y = int (digitsValue 10 (take 4 s));
             mo = int (digitsValue 10 (take 2 (drop 5 s)));
             d = int (digitsValue 10 (take 2 (drop 8 s)));
             hh = int (digitsValue 10 (take 2 (drop 11 s)));
             mi = int (digitsValue 10 (take 2 (drop 14 s)));
             sec = int (digitsValue 10 (take 2 (drop 17 s)))
         in if 1 \<le> mo \<and> mo \<le> 12 \<and> 1 \<le> d \<and> d \<le> 31 \<and> hh < 24 \<and> mi < 60 \<and> sec < 60
            then Some (daysOfCivil y mo d * 86400000 + hh * 3600000 + mi * 60000 + sec * 1000)
            else None)
      else None)"

definition padded :: "nat \<Rightarrow> int \<Rightarrow> string" where
  "padded w n = (let ds = decimal (nat n) in replicate (w - length ds) CHR ''0'' @ ds)"

definition cairoStamp :: "int \<Rightarrow> string" where
  "cairoStamp t =
     (let local = t + 7200000;
          ms = local mod 86400000
      in case civilOfDays (local div 86400000) of
           (y, mo, d) \<Rightarrow>
             padded 4 y @ ''-'' @ padded 2 mo @ ''-'' @ padded 2 d @ '' ''
             @ padded 2 (ms div 3600000) @ '':'' @ padded 2 (ms mod 3600000 div 60000)
             @ '':'' @ padded 2 (ms mod 60000 div 1000))"

fun places :: "nat \<Rightarrow> rat \<Rightarrow> string" where
  "places 0 r = []"
| "places (Suc k) r =
     (if r = 0 then [] else digitChar (nat \<lfloor>r * 10\<rfloor>) # places k (r * 10 - of_int \<lfloor>r * 10\<rfloor>))"

fun plainDisplay :: "jsnum \<Rightarrow> string" where
  "plainDisplay (Fin r) =
     (let a = \<bar>r\<bar>; whole = \<lfloor>a\<rfloor>; rest = a - of_int whole
      in (if r < 0 then ''-'' else []) @ decimal (nat whole)
         @ (if rest = 0 then [] else ''.'' @ places 15 rest))"
| "plainDisplay PosInf = ''Infinity''"
| "plainDisplay NegInf = ''-Infinity''"
| "plainDisplay NaN = []"

text \<open>The example instant is 3 November 2026, 07:15:00 UTC.\<close>

definition exampleHost :: env where
  "exampleHost =
     \<lparr>nowTime = 1793690100000, nowStamp = ''2026-11-03 09:15:00'', parseDate = readStamp,
      yearMonth = utcYearMonth, formatTime = cairoStamp, display = plainDisplay\<rparr>"

text \<open>
  A master spreadsheet with one client tab: \<open>amr\<close> enters orders for the branch Maadi,
  \<open>mona\<close> approves. The client's spreadsheet has the id \<open>sheetA\<close>.
\<close>

definition credentialHeader :: row where
  "credentialHeader = [''Username'', ''Password'', ''Branch'', ''Restricted'', ''Level'', ''Sheet'']"

definition exampleMaster :: master where
  "exampleMaster =
     [\<lparr>title = ''Config'',
       cells = [credentialHeader, [''root'', ''x'', [], ''N'', ''L2'', ''cfg'']]\<rparr>,
      \<lparr>title = ''ClientA'',
       cells = [credentialHeader,
                [''amr'', ''secret'', ''Maadi'', ''N'', ''L1'', ''sheetA''],
                [''mona'', ''pw2'', [], ''N'', ''L2'']]\<rparr>]"

definition orderHeader :: row where
  "orderHeader = [''Date'', ''Branch'', ''User'', ''Code'', ''Name'', ''Price'', ''Subtotal'',
                  ''Category'', ''Qty'', [], ''Serial'']"

definition emptyStore :: store where
  "emptyStore = \<lparr>waiting = [orderHeader], finalOrders = [orderHeader],
                  cancelledOrders = [orderHeader], serialB2 = []\<rparr>"

text \<open>
  The store of the example client. Its waiting sheet holds a line of order \<open>AA1\<close> entered at
  the example instant, a line with the same serial dated 20 October 2026 (as a day serial)
  and a line of order \<open>AA2\<close> of 3 November 2026.
\<close>

definition exampleStore :: store where
  "exampleStore =
     \<lparr>waiting =
        [orderHeader,
         [''2026-11-03 09:15:00'', ''Maadi'', ''amr'', ''P1'', ''Juice'', ''10'', ''30'',
          ''Drinks'', ''3'', [], ''AA1''],
         [''46315'', ''Maadi'', ''amr'', ''P2'', ''Water'', ''5'', ''10'', ''Drinks'', ''2'', [],
          ''AA1''],
         [''46329'', ''Zayed'', ''ali'', ''P1'', ''Juice'', ''10'', ''20'', ''Drinks'', ''2'', [],
          ''AA2'']],
      finalOrders = [orderHeader], cancelledOrders = [orderHeader], serialB2 = ''AA2''\<rparr>"

definition exampleStores :: stores where
  "exampleStores sid = (if sid = ''sheetA'' then exampleStore else emptyStore)"

text \<open>What the identity resolver finds for the approver of the example.\<close>

definition mona :: userInfo where
  "mona = \<lparr>uiTab = ''ClientA'', uiBranch = [], uiRestricted = False, uiLevel = ''L2'',
           uiPaperMode = False, uiBudgetSheetId = ''sheetA''\<rparr>"

text \<open>The host of the example a minute later, where a second request arrives.\<close>

definition laterHost :: env where
  "laterHost = exampleHost\<lparr>nowTime := 1793690160000, nowStamp := ''2026-11-03 09:16:00''\<rparr>"

text \<open>
  A client spreadsheet whose sheets were created empty, without a header row, after its
  first submission: the line of the order sits in the first row of the waiting sheet.
\<close>

definition firstRowStore :: store where
  "firstRowStore =
     \<lparr>waiting =
        [[''2026-11-03 09:15:00'', ''Maadi'', ''amr'', ''P1'', ''Juice'', ''10'', ''30'',
          ''Drinks'', ''3'', [], ''AA1'']],
      finalOrders = [], cancelledOrders = [], serialB2 = ''AA1''\<rparr>"

definition firstRowStores :: stores where
  "firstRowStores sid = (if sid = ''sheetA'' then firstRowStore else emptyStore)"

text \<open>
  A waiting sheet on which an order holds the same product in two lines, and two edit
  requests: one for the product \<open>P1\<close>, one for \<open>P2\<close>, whose line in the example store is
  dated in October.
\<close>

definition repeatedStore :: store where
  "repeatedStore =
     \<lparr>waiting =
        [orderHeader,
         [''2026-11-03 09:15:00'', ''Maadi'', ''amr'', ''P1'', ''Juice'', ''10'', ''30'',
          ''Drinks'', ''3'', [], ''AA1''],
         [''2026-11-03 09:15:00'', ''Maadi'', ''amr'', ''P1'', ''Juice'', ''10'', ''10'',
          ''Drinks'', ''1'', [], ''AA1'']],
      finalOrders = [orderHeader], cancelledOrders = [orderHeader], serialB2 = ''AA1''\<rparr>"

definition repeatedStores :: stores where
  "repeatedStores sid = (if sid = ''sheetA'' then repeatedStore else emptyStore)"

definition exampleEdit :: "editItem list" where
  "exampleEdit = [\<lparr>eiProductCode = ''P1'', eiQuantity = JNum (Fin 5)\<rparr>]"

definition staleEdit :: "editItem list" where
  "staleEdit = [\<lparr>eiProductCode = ''P2'', eiQuantity = JNum (Fin 5)\<rparr>]"

section \<open>Vocabulary for the statements about editing\<close>

text \<open>
  In the words of the specification: row \<open>i\<close> of the waiting sheet is a line of the serial
  \<open>s\<close> and the product \<open>code\<close> when it lies below the header row, is dated in the current
  month and carries that serial and that code. \<open>lastTarget\<close> says that it is the last such
  row of the sheet. \<open>editedRow\<close> is a row after an edit to the requested quantity: column I
  holds the quantity, not below 0, and column G the stored unit price times that quantity,
  both as the sheet displays them.
\<close>

definition editTarget :: "env \<Rightarrow> grid \<Rightarrow> string \<Rightarrow> string \<Rightarrow> nat \<Rightarrow> bool" where
  "editTarget e rows s code i =
     (1 \<le> i \<and> i < length rows \<and> inMonth e (rows ! i) \<and> trim (cellOr (rows ! i) 10) = s
      \<and> cellOr (rows ! i) 3 = code)"

definition lastTarget :: "env \<Rightarrow> grid \<Rightarrow> string \<Rightarrow> string \<Rightarrow> nat \<Rightarrow> bool" where
  "lastTarget e rows s code i =
     (editTarget e rows s code i \<and> \<not> list_ex (editTarget e rows s code) [Suc i..<length rows])"

definition editedRow :: "env \<Rightarrow> row \<Rightarrow> jsval \<Rightarrow> row" where
  "editedRow e r requested =
     r[8 := display e (max0 (orNum (parseIntOf requested) (Fin 0))),
       6 := display e (mulNum (orNum (parseFloat (cellOr r 5)) (Fin 0))
                               (max0 (orNum (parseIntOf requested) (Fin 0))))]"

section \<open>Facts about the text primitives\<close>

lemma isDigit_digitChar: "k < 10 \<Longrightarrow> isDigit (digitChar k)"
  by (simp add: isDigit_def isDigitIn_def digitOf_def digitChar_def Let_def)

lemma digitOf_digitChar: "k < 10 \<Longrightarrow> digitOf 10 (digitChar k) = Some k"
  by (simp add: digitOf_def digitChar_def Let_def)

lemma decimal_digits: "list_all isDigit (decimal n)"
proof (induction n rule: decimal.induct)
  case (1 n)
  show ?case
  proof (cases "n < 10")
    case True
    then show ?thesis by (subst decimal.simps) (simp add: isDigit_digitChar)
  next
    case False
    then show ?thesis using 1 by (subst decimal.simps) (simp add: isDigit_digitChar)
  qed
qed

lemma decimal_nonempty: "decimal n \<noteq> []"
  by (subst decimal.simps) simp

lemma digitsValue_snoc:
  "digitsValue r (ds @ [c]) = r * digitsValue r ds + the (digitOf r c)"
  by (simp add: digitsValue_def)

lemma digitsValue_decimal: "digitsValue 10 (decimal n) = n"
proof (induction n rule: decimal.induct)
  case (1 n)
  show ?case
  proof (cases "n < 10")
    case True
    then show ?thesis
      by (subst decimal.simps) (simp add: digitsValue_def digitOf_digitChar)
  next
    case False
    then have "digitsValue 10 (decimal n) = 10 * (n div 10) + n mod 10"
      using 1 by (subst decimal.simps) (simp add: digitsValue_snoc digitOf_digitChar)
    then show ?thesis by simp
  qed
qed

lemma isDigit_code: "isDigit c \<longleftrightarrow> 48 \<le> (of_char c :: nat) \<and> (of_char c :: nat) \<le> 57"
  by (auto simp: isDigit_def isDigitIn_def digitOf_def Let_def split: if_splits)

lemma isDigit_not_space: "isDigit c \<Longrightarrow> \<not> isWhiteSpace c"
  by (auto simp: isDigit_code isWhiteSpace_def)

lemma isDigit_not_sign: "isDigit c \<Longrightarrow> c \<noteq> CHR ''-'' \<and> c \<noteq> CHR ''+''"
  by (auto simp: isDigit_code)

lemma isDigit_not_x: "isDigit c \<Longrightarrow> c \<noteq> CHR ''x'' \<and> c \<noteq> CHR ''X''"
  by (auto simp: isDigit_code)

lemma isDigit_upper: "isDigit c \<Longrightarrow> upperChar c = c"
  by (simp add: isDigit_code upperChar_def Let_def)

lemma trim_no_space:
  assumes "s \<noteq> []" "\<not> isWhiteSpace (hd s)" "\<not> isWhiteSpace (last s)"
  shows "trim s = s"
proof -
  from assms(1,2) have a: "dropWhile isWhiteSpace s = s"
    by (cases s) simp_all
  from assms(1,3) have "\<not> isWhiteSpace (hd (rev s))" "rev s \<noteq> []"
    by (simp_all add: hd_rev)
  then have b: "dropWhile isWhiteSpace (rev s) = rev s"
    by (cases "rev s") simp_all
  show ?thesis by (simp add: trim_def a b)
qed

lemma decimal_hd: "isDigit (hd (decimal n))"
  using decimal_digits [of n] decimal_nonempty [of n]
  by (cases "decimal n") simp_all

lemma decimal_last: "isDigit (last (decimal n))"
  using decimal_digits [of n] decimal_nonempty [of n]
  by (metis last_in_set list_all_iff)

lemma trim_decimal: "trim (decimal n) = decimal n"
  by (intro trim_no_space decimal_nonempty isDigit_not_space decimal_hd decimal_last)

lemma toUpperCase_decimal: "toUpperCase (decimal n) = decimal n"
  using decimal_digits [of n]
  by (simp add: toUpperCase_def list_all_iff map_idI isDigit_upper)

lemma parseIntRadix_decimal: "parseIntRadix 10 (decimal n) = Some (int n)"
proof -
  have h: "isDigit (hd (decimal n))" and ne: "decimal n \<noteq> []"
    using decimal_hd decimal_nonempty by auto
  have t: "trimStart (decimal n) = decimal n"
    using h ne by (cases "decimal n") (simp_all add: trimStart_def isDigit_not_space)
  have "takeWhile isDigit (decimal n) = decimal n"
    using decimal_digits [of n] by (simp add: takeWhile_eq_all_conv list_all_iff)
  then have tw: "takeWhile (isDigitIn 10) (decimal n) = decimal n"
    by (simp add: isDigit_def [abs_def])
  show ?thesis
    using h ne isDigit_not_sign [OF h]
    by (simp add: parseIntRadix_def t tw Let_def digitsValue_decimal)
qed

lemma toDouble_nat: "n \<le> 2 ^ 53 \<Longrightarrow> toDouble (of_nat n) = Fin (of_nat n)"
  by (simp add: toDouble_def)

lemma toDouble_zero: "toDouble 0 = Fin 0"
  by (simp add: toDouble_def)

lemma decimal_0: "decimal 0 = ''0''"
  by code_simp

lemma numberText_nat: "n \<le> 2 ^ 53 \<Longrightarrow> numberText (Fin (of_nat n)) = decimal n"
  by (cases "n = 0") (simp_all add: positiveText_def decimal_0)

lemma addNum_one: "n < 2 ^ 53 \<Longrightarrow> addNum (Fin (of_nat n)) (Fin 1) = Fin (of_nat (Suc n))"
  using toDouble_nat [of "Suc n"] by (simp add: add.commute)

lemma currentNumOf_AA:
  assumes "n \<le> 2 ^ 53"
  shows "currentNumOf (''AA'' @ decimal n) = Fin (of_nat n)"
proof -
  have u: "toUpperCase (''AA'' @ decimal n) = ''AA'' @ decimal n"
    using toUpperCase_decimal [of n] by (simp add: toUpperCase_def upperChar_def)
  have "currentNumOf (''AA'' @ decimal n)
          = (let parsed = numOfInt (parseIntRadix 10 (trim (decimal n)))
             in if parsed \<noteq> NaN \<and> geNum parsed 0 then parsed else Fin 0)"
    unfolding currentNumOf_def u Let_def startsWith_def by simp
  then show ?thesis
    using toDouble_nat [OF assms]
    by (simp add: trim_decimal parseIntRadix_decimal numOfInt_def)
qed

lemma trim_AA: "trim (''AA'' @ decimal n) = ''AA'' @ decimal n"
proof -
  have "last (''AA'' @ decimal n) = last (decimal n)"
    using decimal_nonempty [of n] by simp
  then show ?thesis
    using decimal_last [of n]
    by (intro trim_no_space) (auto simp: isWhiteSpace_def dest: isDigit_not_space)
qed

lemma currentNumOf_empty: "currentNumOf [] = Fin 0"
  by (simp add: currentNumOf_def toUpperCase_def)

lemma currentNumOf_no_prefix:
  "\<not> startsWith (toUpperCase s) ''AA'' \<Longrightarrow> currentNumOf s = Fin 0"
  by (simp add: currentNumOf_def)

lemma decimal_1: "decimal (Suc 0) = ''1''"
  by code_simp

lemma first_serial: "numberText (toDouble 1) = ''1''"
  using numberText_nat [of 1] toDouble_nat [of 1] by (simp add: decimal_1)

lemma scale2_pos: "0 < scale2 e"
  by (simp add: scale2_def)

lemma toDouble_sign:
  "toDouble r = Fin r
   \<or> toDouble r = (if r > 0 then PosInf else NegInf)
   \<or> (\<exists>v \<ge> 0. toDouble r = Fin (if r > 0 then v else - v))"
proof -
  define e where "e = max (floorLog2 \<bar>r\<bar> - 52) (- 1074)"
  define q where "q = \<lfloor>\<bar>r\<bar> / scale2 e\<rfloor>"
  define m where "m = (if \<bar>r\<bar> / scale2 e - of_int q > 1 / 2
                          \<or> (\<bar>r\<bar> / scale2 e - of_int q = 1 / 2 \<and> odd q) then q + 1 else q)"
  define v where "v = of_int m * scale2 e"
  have "0 \<le> \<bar>r\<bar> / scale2 e"
    using scale2_pos [of e] by simp
  then have "0 \<le> q" by (simp add: q_def)
  then have "0 \<le> m" by (simp add: m_def)
  then have v: "0 \<le> v"
    using scale2_pos [of e] by (simp add: v_def)
  have "toDouble r
          = (if of_int \<lfloor>r\<rfloor> = r \<and> \<bar>r\<bar> \<le> 2 ^ 53 then Fin r
             else if v \<ge> 2 ^ 1024 then (if r > 0 then PosInf else NegInf)
             else Fin (if r > 0 then v else - v))"
    unfolding toDouble_def Let_def v_def m_def q_def e_def by (rule refl)
  then show ?thesis
    using v by (metis (full_types))
qed

lemma toDouble_nonneg:
  assumes "0 \<le> r"
  shows "toDouble r \<noteq> NaN \<and> geNum (toDouble r) 0"
proof (cases "r = 0")
  case True
  then show ?thesis by (simp add: toDouble_zero)
next
  case False
  then have "0 < r" using assms by simp
  then show ?thesis using toDouble_sign [of r] by auto
qed

lemma toDouble_negative: "r < 0 \<Longrightarrow> toDouble r = Fin 0 \<or> \<not> geNum (toDouble r) 0"
  using toDouble_sign [of r] by auto

lemma currentNumOf_parsed:
  assumes a: "startsWith (toUpperCase s) ''AA''"
  shows "currentNumOf s
     = (case parseIntRadix 10 (trim (drop 2 (toUpperCase s))) of
          None \<Rightarrow> Fin 0
        | Some parsed \<Rightarrow>
            if parsed < 0 then Fin 0
            else if parsed \<le> 2 ^ 53 then Fin (of_int parsed) else toDouble (of_int parsed))"
proof -
  have ne: "toUpperCase s \<noteq> []" using a by (auto simp: startsWith_def)
  have cur: "currentNumOf s
          = (case parseIntRadix 10 (trim (drop 2 (toUpperCase s))) of
               None \<Rightarrow> Fin 0
             | Some i \<Rightarrow> if toDouble (of_int i) \<noteq> NaN \<and> geNum (toDouble (of_int i)) 0
                          then toDouble (of_int i) else Fin 0)"
    unfolding currentNumOf_def Let_def numOfInt_def using a ne by (simp split: option.splits)
  have small: "toDouble (of_int i) = Fin (of_int i)" if "0 \<le> i" "i \<le> 2 ^ 53" for i :: int
    using that by (simp add: toDouble_def)
  show ?thesis
  proof (cases "parseIntRadix 10 (trim (drop 2 (toUpperCase s)))")
    case None
    then show ?thesis by (simp add: cur)
  next
    case (Some i)
    show ?thesis
    proof (cases "i < 0")
      case True
      then have "toDouble (of_int i) = Fin 0 \<or> \<not> geNum (toDouble (of_int i)) 0"
        by (intro toDouble_negative) simp
      then show ?thesis using True Some by (auto simp: cur)
    next
      case False
      then have "toDouble (of_int i) \<noteq> NaN \<and> geNum (toDouble (of_int i)) 0"
        by (intro toDouble_nonneg) simp
      then show ?thesis using False Some small [of i] by (auto simp: cur)
    qed
  qed
qed

lemma digit_chars:
  "digitChar 0 = CHR ''0''" "digitChar (Suc 0) = CHR ''1''" "digitChar 2 = CHR ''2''"
  "digitChar 3 = CHR ''3''" "digitChar 4 = CHR ''4''" "digitChar 5 = CHR ''5''"
  "digitChar 6 = CHR ''6''" "digitChar 7 = CHR ''7''" "digitChar 8 = CHR ''8''"
  "digitChar 9 = CHR ''9''"
  by code_simp+

lemma currentNumOf_digits: "currentNumOf (''AA'' @ decimal n) = toDouble (of_nat n)"
proof -
  have u: "toUpperCase (''AA'' @ decimal n) = ''AA'' @ decimal n"
    using toUpperCase_decimal [of n] by (simp add: toUpperCase_def upperChar_def)
  have "startsWith (toUpperCase (''AA'' @ decimal n)) ''AA''"
    unfolding u by (simp add: startsWith_def)
  then have "currentNumOf (''AA'' @ decimal n)
     = (case parseIntRadix 10 (trim (drop 2 (toUpperCase (''AA'' @ decimal n)))) of
          None \<Rightarrow> Fin 0
        | Some parsed \<Rightarrow>
            if parsed < 0 then Fin 0
            else if parsed \<le> 2 ^ 53 then Fin (of_int parsed) else toDouble (of_int parsed))"
    by (rule currentNumOf_parsed)
  also have "\<dots> = (if int n \<le> 2 ^ 53 then Fin (of_nat n) else toDouble (of_nat n))"
    unfolding u by (simp add: trim_decimal parseIntRadix_decimal)
  also have "\<dots> = toDouble (of_nat n)"
    using toDouble_nat [of n] by (simp add: nat_le_iff [symmetric])
  finally show ?thesis .
qed

text \<open>
  Above \<open>2^53\<close> the counter follows the doubles: \<open>2^53 + 1\<close> reads as \<open>2^53\<close>, and adding
  one gives \<open>2^53\<close> again.
\<close>

lemma round_example: "toDouble 9007199254740993 = Fin 9007199254740992"
proof -
  have f: "\<lfloor>(9007199254740993::rat) / 2\<rfloor> = 4503599627370496"
    using floor_divide_of_int_eq [of 9007199254740993 2, where ?'a = rat] by simp
  have "bitLength 9007199254740993 = 54"
    by (simp add: bitLength.simps)
  then have l: "floorLog2 9007199254740993 = 53"
    by (simp add: floorLog2_def)
  show ?thesis
    unfolding toDouble_def Let_def by (simp add: scale2_def l f)
qed

lemma serial_above_exact:
  "fst (getNextOrderSerial False (emptyStore\<lparr>serialB2 := ''AA9007199254740993''\<rparr>))
     = ''AA9007199254740992''"
proof -
  have d: "decimal 9007199254740993 = ''9007199254740993''"
          "decimal 9007199254740992 = ''9007199254740992''"
    by (simp_all add: decimal.simps digit_chars)
  have cur: "currentNumOf (''AA'' @ decimal 9007199254740993) = Fin 9007199254740992"
    using currentNumOf_digits [of 9007199254740993] by (simp add: round_example)
  have t: "trim (''AA'' @ decimal 9007199254740993) = ''AA'' @ decimal 9007199254740993"
    by (rule trim_AA)
  have step: "addNum (Fin 9007199254740992) (Fin 1) = Fin 9007199254740992"
    by (simp add: round_example)
  have shown: "numberText (Fin 9007199254740992) = decimal 9007199254740992"
    using numberText_nat [of 9007199254740992] by simp
  have "fst (getNextOrderSerial False (emptyStore\<lparr>serialB2 := c\<rparr>))
          = ''AA'' @ numberText (addNum (currentNumOf (trim c)) (Fin 1))" for c
    by (simp add: getNextOrderSerial_def Let_def)
  from this [of "''AA'' @ decimal 9007199254740993"]
  have "fst (getNextOrderSerial False (emptyStore\<lparr>serialB2 := ''AA'' @ decimal 9007199254740993\<rparr>))
          = ''AA'' @ decimal 9007199254740992"
    unfolding t cur step shown .
  then show ?thesis
    by (simp add: d)
qed

section \<open>The serial generator\<close>

text \<open>
  Claim C1, as amended. The generator writes the serial it returns back to the counter
  cell and touches no order sheet. When the read fails or the cell is blank the serial is
  \<open>AA1\<close>. For a cell holding \<open>AA\<close> and a natural number \<open>n\<close> below \<open>2^53\<close> it is \<open>AA\<close> and
  \<open>n + 1\<close>. The prefix is required, in either case of the letters: content that does not
  start with it counts as 0, whatever digits it holds, and the serial is \<open>AA1\<close>. After the
  prefix the leading integer of the rest is read: a missing or negative one counts as 0,
  and one below \<open>2^53\<close> is counted up by one (from \<open>2^53\<close> on the numbers are rounded
  doubles, as \<open>serial_above_exact\<close> shows).
\<close>

theorem nextSerial_counter:
  "serialB2 (snd (getNextOrderSerial readFails st)) = fst (getNextOrderSerial readFails st)
   \<and> waiting (snd (getNextOrderSerial readFails st)) = waiting st
   \<and> finalOrders (snd (getNextOrderSerial readFails st)) = finalOrders st
   \<and> cancelledOrders (snd (getNextOrderSerial readFails st)) = cancelledOrders st
   \<and> (readFails \<or> trim (serialB2 st) = [] \<longrightarrow> fst (getNextOrderSerial readFails st) = ''AA1'')
   \<and> (\<not> readFails \<and> serialB2 st = ''AA'' @ decimal n \<and> n < 2 ^ 53
        \<longrightarrow> fst (getNextOrderSerial readFails st) = ''AA'' @ decimal (n + 1))
   \<and> (\<not> startsWith (toUpperCase (trim (serialB2 st))) ''AA''
        \<longrightarrow> fst (getNextOrderSerial readFails st) = ''AA1'')
   \<and> (\<not> readFails \<and> startsWith (toUpperCase (trim (serialB2 st))) ''AA''
        \<longrightarrow> (case parseIntRadix 10 (trim (drop 2 (toUpperCase (trim (serialB2 st))))) of
               None \<Rightarrow> fst (getNextOrderSerial readFails st) = ''AA1''
             | Some parsed \<Rightarrow>
                 if parsed < 0 then fst (getNextOrderSerial readFails st) = ''AA1''
                 else parsed < 2 ^ 53
                      \<longrightarrow> fst (getNextOrderSerial readFails st) = ''AA'' @ decimal (nat parsed + 1)))"
proof -
  have a: "readFails \<or> trim (serialB2 st) = [] \<Longrightarrow> fst (getNextOrderSerial readFails st) = ''AA1''"
    by (auto simp: getNextOrderSerial_def currentNumOf_empty first_serial Let_def)
  have b: "\<not> readFails \<and> serialB2 st = ''AA'' @ decimal n \<and> n < 2 ^ 53
        \<Longrightarrow> fst (getNextOrderSerial readFails st) = ''AA'' @ decimal (n + 1)"
    using trim_AA [of n] currentNumOf_AA [of n] addNum_one [of n] numberText_nat [of "Suc n"]
    by (simp add: getNextOrderSerial_def Let_def)
  have c: "\<not> startsWith (toUpperCase (trim (serialB2 st))) ''AA''
        \<Longrightarrow> fst (getNextOrderSerial readFails st) = ''AA1''"
    by (simp add: getNextOrderSerial_def currentNumOf_no_prefix currentNumOf_empty first_serial
          Let_def)
  have d: "(case parseIntRadix 10 (trim (drop 2 (toUpperCase (trim (serialB2 st))))) of
               None \<Rightarrow> fst (getNextOrderSerial readFails st) = ''AA1''
             | Some parsed \<Rightarrow>
                 if parsed < 0 then fst (getNextOrderSerial readFails st) = ''AA1''
                 else parsed < 2 ^ 53
                      \<longrightarrow> fst (getNextOrderSerial readFails st) = ''AA'' @ decimal (nat parsed + 1))"
    if "\<not> readFails \<and> startsWith (toUpperCase (trim (serialB2 st))) ''AA''"
  proof -
    have cur: "currentNumOf (trim (serialB2 st))
     = (case parseIntRadix 10 (trim (drop 2 (toUpperCase (trim (serialB2 st))))) of
          None \<Rightarrow> Fin 0
        | Some parsed \<Rightarrow>
            if parsed < 0 then Fin 0
            else if parsed \<le> 2 ^ 53 then Fin (of_int parsed) else toDouble (of_int parsed))"
      using that by (intro currentNumOf_parsed) simp
    have succ: "numberText (addNum (Fin (of_int parsed)) (Fin 1)) = decimal (nat parsed + 1)"
      if "0 \<le> parsed" "parsed < 2 ^ 53" for parsed :: int
    proof -
      have "nat parsed < 2 ^ 53" using that by (simp add: nat_less_iff)
      then show ?thesis
        using addNum_one [of "nat parsed"] numberText_nat [of "Suc (nat parsed)"] that
        by simp
    qed
    show ?thesis
      using that succ
      by (auto simp: getNextOrderSerial_def Let_def cur first_serial split: option.splits)
  qed
  show ?thesis
    using a b c d by (simp add: getNextOrderSerial_def Let_def)
qed


theorem nextSerial_counter_witness:
  "fst (getNextOrderSerial False (emptyStore\<lparr>serialB2 := ''AA13''\<rparr>)) = ''AA14''
   \<and> serialB2 (snd (getNextOrderSerial False (emptyStore\<lparr>serialB2 := ''AA13''\<rparr>))) = ''AA14''
   \<and> fst (getNextOrderSerial True (emptyStore\<lparr>serialB2 := ''AA13''\<rparr>)) = ''AA1''"
proof -
  have d13: "''AA13'' = ''AA'' @ decimal 13" and d14: "decimal (13 + 1) = ''14''"
    by code_simp+
  have st: "serialB2 (emptyStore\<lparr>serialB2 := ''AA13''\<rparr>) = ''AA'' @ decimal 13"
    using d13 by simp
  have n: "(13::nat) < 2 ^ 53" by simp
  show ?thesis
    using nextSerial_counter [of False "emptyStore\<lparr>serialB2 := ''AA13''\<rparr>" 13]
          nextSerial_counter [of True "emptyStore\<lparr>serialB2 := ''AA13''\<rparr>" 13]
          st n d14
    by simp
qed

text \<open>
  The claim as stated fails: the cell \<open>7\<close> holds a numeric suffix and no prefix; the suffix
  reads as 7, yet the next serial is \<open>AA1\<close> and not \<open>AA8\<close>.
\<close>

theorem nextSerial_prefix_required:
  "parseIntRadix 10 ''7'' = Some 7
   \<and> fst (getNextOrderSerial False (emptyStore\<lparr>serialB2 := ''7''\<rparr>)) = ''AA1''
   \<and> fst (getNextOrderSerial False (emptyStore\<lparr>serialB2 := ''7''\<rparr>)) \<noteq> ''AA8''"
  by code_simp

section \<open>Facts about the example host\<close>

lemma example_days:
  "(1793690100000::int) div 86400000 = 20760" "(1793697300000::int) div 86400000 = 20760"
  "(1793664000000::int) div 86400000 = 20760" "(1792454400000::int) div 86400000 = 20746"
  by simp_all

lemma civil_November: "civilOfDays 20760 = (2026, 11, 3)"
  unfolding civilOfDays_def Let_def by simp

lemma civil_October: "civilOfDays 20746 = (2026, 10, 20)"
  unfolding civilOfDays_def Let_def by simp

lemma example_months:
  "utcYearMonth 1793690100000 = (2026, 10)" "utcYearMonth 1793697300000 = (2026, 10)"
  "utcYearMonth 1793664000000 = (2026, 10)" "utcYearMonth 1792454400000 = (2026, 9)"
  by (simp_all add: utcYearMonth_def example_days civil_November civil_October)

lemma stamp_time: "readStamp ''2026-11-03 09:15:00'' = Some 1793697300000"
  by (simp add: readStamp_def daysOfCivil_def Let_def isDigit_def isDigitIn_def digitOf_def
        digitsValue_def)

lemma stamp_number: "toNumber ''2026-11-03 09:15:00'' = NaN"
  by (simp add: toNumber_def trim_def isWhiteSpace_def startsWith_def scanUnsigned_def
        scanExponent_def isDigit_def isDigitIn_def digitOf_def digitsValue_def Let_def)

lemma serial_numbers: "toNumber ''46315'' = Fin 46315" "toNumber ''46329'' = Fin 46329"
  by (simp_all add: toNumber_def trim_def isWhiteSpace_def startsWith_def scanUnsigned_def
        scanExponent_def isDigit_def isDigitIn_def digitOf_def digitsValue_def toDouble_def Let_def)

lemma serial_times:
  "serialToDate (Fin 46315) = Some 1792454400000" "serialToDate (Fin 46329) = Some 1793664000000"
  by (simp_all add: serialToDate_def toDouble_def truncNum_def)

lemma example_dates:
  "currentDate exampleHost (''2026-11-03 09:15:00'' # cs) = Some 1793697300000"
  "currentDate exampleHost (''46329'' # cs) = Some 1793664000000"
  "currentDate exampleHost (''46315'' # cs) = None"
  by (simp_all add: currentDate_def decodeDate_def isSameMonth_def isNaN_def cellOr_def
        exampleHost_def stamp_time stamp_number serial_numbers serial_times truncNum_def
        example_months)

lemma example_inMonth:
  "inMonth exampleHost (''2026-11-03 09:15:00'' # cs)"
  "inMonth exampleHost (''46329'' # cs)"
  "\<not> inMonth exampleHost (''46315'' # cs)"
  by (simp_all add: inMonth_def example_dates)

lemma mona_found: "getUserInfoByUsername exampleMaster ''mona'' = Inr (Some mona)"
  by code_simp

lemma mona_level: "toUpperCase (uiLevel mona) = ''L2''"
  by code_simp

lemma mona_sheet: "uiBudgetSheetId mona = ''sheetA''"
  by (simp add: mona_def)

lemma example_request:
  "serialOf (if ''AA1__waiting'' \<noteq> [] then ''AA1__waiting'' else []) = ''AA1''"
  "statusOf (if ''AA1__waiting'' \<noteq> [] then ''AA1__waiting'' else []) = ''waiting''"
  "serialOf ''AA1__waiting'' = ''AA1''"
  "statusOf ''AA1__waiting'' = ''waiting''"
  by code_simp+

lemma example_waiting:
  "waiting (exampleStores ''sheetA'')
     = [orderHeader,
        [''2026-11-03 09:15:00'', ''Maadi'', ''amr'', ''P1'', ''Juice'', ''10'', ''30'',
         ''Drinks'', ''3'', [], ''AA1''],
        [''46315'', ''Maadi'', ''amr'', ''P2'', ''Water'', ''5'', ''10'', ''Drinks'', ''2'', [], ''AA1''],
        [''46329'', ''Zayed'', ''ali'', ''P1'', ''Juice'', ''10'', ''20'', ''Drinks'', ''2'', [], ''AA2'']]"
  "finalOrders (exampleStores ''sheetA'') = [orderHeader]"
  by (simp_all add: exampleStores_def exampleStore_def)

lemma trim_examples: "trim ''AA1'' = ''AA1''" "trim ''AA2'' = ''AA2''" "trim ''Maadi'' = ''Maadi''"
  by code_simp+

lemma later_month: "utcYearMonth 1793690160000 = (2026, 10)"
proof -
  have "(1793690160000::int) div 86400000 = 20760" by simp
  then show ?thesis by (simp add: utcYearMonth_def civil_November)
qed

lemma later_inMonth:
  "inMonth laterHost (''2026-11-03 09:15:00'' # cs)"
  "\<not> inMonth laterHost (''46315'' # cs)"
  by (simp_all add: inMonth_def currentDate_def decodeDate_def isSameMonth_def isNaN_def
        cellOr_def laterHost_def exampleHost_def stamp_time stamp_number serial_numbers
        serial_times truncNum_def example_months later_month)

lemma firstRow_waiting:
  "waiting (firstRowStores ''sheetA'')
     = [[''2026-11-03 09:15:00'', ''Maadi'', ''amr'', ''P1'', ''Juice'', ''10'', ''30'',
         ''Drinks'', ''3'', [], ''AA1'']]"
  by (simp add: firstRowStores_def firstRowStore_def)

section \<open>Login and the identity resolver\<close>

lemma findLogin_first:
  assumes "\<forall>t' \<in> set pre. find (loginRow u p) (credentialRows t') = None"
      and "find (loginRow u p) (credentialRows t) = Some r"
  shows "findLogin (pre @ t # post) u p
           = (case userOfRow t r of Inl err \<Rightarrow> Inl err | Inr v \<Rightarrow> Inr (Some v))"
  using assms by (induction pre) simp_all

lemma findLogin_only:
  assumes "t \<in> set ts"
      and "find (loginRow u p) (credentialRows t) = Some r"
      and "\<forall>t' \<in> set ts. t' \<noteq> t \<longrightarrow> find (loginRow u p) (credentialRows t') = None"
  shows "findLogin ts u p
           = (case userOfRow t r of Inl err \<Rightarrow> Inl err | Inr v \<Rightarrow> Inr (Some v))"
  using assms
proof (induction ts)
  case Nil
  then show ?case by simp
next
  case (Cons x xs)
  show ?case
  proof (cases "x = t")
    case True
    then show ?thesis using Cons.prems(2) by simp
  next
    case False
    then have "find (loginRow u p) (credentialRows x) = None" and "t \<in> set xs"
      using Cons.prems by auto
    then show ?thesis using Cons by simp
  qed
qed

lemma findLogin_none:
  "\<forall>t \<in> set ts. find (loginRow u p) (credentialRows t) = None \<Longrightarrow> findLogin ts u p = Inr None"
  by (induction ts) simp_all

lemma userOfRow_result:
  "(case userOfRow t r of Inl err \<Rightarrow> Inl err | Inr v \<Rightarrow> Inr (Some v))
     = (if idCell t = [] then Inl (BudgetSheetIdMissing (title t))
        else Inr (Some \<lparr>uiTab = title t, uiBranch = trim (cellOr r 2),
                         uiRestricted = (toUpperCase (trim (cellOr r 3)) = ''Y''),
                         uiLevel = (if toUpperCase (trim (cellOr r 4)) = [] then ''L1''
                                    else toUpperCase (trim (cellOr r 4))),
                         uiPaperMode = (toUpperCase (trim (cellOr r 25)) = ''Y''),
                         uiBudgetSheetId = idCell t\<rparr>))"
  by (simp add: userOfRow_def Let_def)

text \<open>
  Claim C9. The client tabs are the tabs of the master spreadsheet in their order, without
  \<open>Config\<close>, \<open>Readme\<close> and untitled tabs. When a tab holds a row with the user name and the
  password and no tab before it does (in particular when it is the only tab that holds
  one), the lookup answers from the first such row of that tab, whatever tabs follow: the
  branch and level of the row and the id in \<open>F2\<close> of the tab, or the error that names the
  tab when \<open>F2\<close> is blank. When no client tab holds such a row the answer is \<open>null\<close>.
\<close>

theorem authenticate_first_match:
  "(clientTabs m = pre @ t # post
      \<and> (\<forall>t' \<in> set pre. find (loginRow username password) (credentialRows t') = None)
      \<and> find (loginRow username password) (credentialRows t) = Some r
    \<longrightarrow> findClientTabAndSheetIdByUser m username password
          = (if idCell t = [] then Inl (BudgetSheetIdMissing (title t))
             else Inr (Some \<lparr>uiTab = title t, uiBranch = trim (cellOr r 2),
                              uiRestricted = (toUpperCase (trim (cellOr r 3)) = ''Y''),
                              uiLevel = (if toUpperCase (trim (cellOr r 4)) = [] then ''L1''
                                         else toUpperCase (trim (cellOr r 4))),
                              uiPaperMode = (toUpperCase (trim (cellOr r 25)) = ''Y''),
                              uiBudgetSheetId = idCell t\<rparr>)))
   \<and> (t \<in> set (clientTabs m)
      \<and> find (loginRow username password) (credentialRows t) = Some r
      \<and> (\<forall>t' \<in> set (clientTabs m). t' \<noteq> t
            \<longrightarrow> find (loginRow username password) (credentialRows t') = None)
    \<longrightarrow> findClientTabAndSheetIdByUser m username password
          = (if idCell t = [] then Inl (BudgetSheetIdMissing (title t))
             else Inr (Some \<lparr>uiTab = title t, uiBranch = trim (cellOr r 2),
                              uiRestricted = (toUpperCase (trim (cellOr r 3)) = ''Y''),
                              uiLevel = (if toUpperCase (trim (cellOr r 4)) = [] then ''L1''
                                         else toUpperCase (trim (cellOr r 4))),
                              uiPaperMode = (toUpperCase (trim (cellOr r 25)) = ''Y''),
                              uiBudgetSheetId = idCell t\<rparr>)))
   \<and> ((\<forall>t' \<in> set (clientTabs m). find (loginRow username password) (credentialRows t') = None)
    \<longrightarrow> findClientTabAndSheetIdByUser m username password = Inr None)
   \<and> (\<forall>t' \<in> set (clientTabs m). t' \<in> set m \<and> title t' \<noteq> ''Config'' \<and> title t' \<noteq> ''Readme'')
   \<and> (find (loginRow username password) (credentialRows t) = Some r
    \<longrightarrow> r \<in> set (credentialRows t) \<and> trim (cellOr r 0) = username \<and> cellOr r 1 = password)"
proof -
  have a: "clientTabs m = pre @ t # post
      \<and> (\<forall>t' \<in> set pre. find (loginRow username password) (credentialRows t') = None)
      \<and> find (loginRow username password) (credentialRows t) = Some r
    \<Longrightarrow> findClientTabAndSheetIdByUser m username password
          = (case userOfRow t r of Inl err \<Rightarrow> Inl err | Inr v \<Rightarrow> Inr (Some v))"
    unfolding findClientTabAndSheetIdByUser_def using findLogin_first by simp
  have b: "t \<in> set (clientTabs m)
      \<and> find (loginRow username password) (credentialRows t) = Some r
      \<and> (\<forall>t' \<in> set (clientTabs m). t' \<noteq> t
            \<longrightarrow> find (loginRow username password) (credentialRows t') = None)
    \<Longrightarrow> findClientTabAndSheetIdByUser m username password
          = (case userOfRow t r of Inl err \<Rightarrow> Inl err | Inr v \<Rightarrow> Inr (Some v))"
    unfolding findClientTabAndSheetIdByUser_def using findLogin_only by blast
  have c: "(\<forall>t' \<in> set (clientTabs m). find (loginRow username password) (credentialRows t') = None)
    \<Longrightarrow> findClientTabAndSheetIdByUser m username password = Inr None"
    unfolding findClientTabAndSheetIdByUser_def by (rule findLogin_none)
  have d: "\<forall>t' \<in> set (clientTabs m). t' \<in> set m \<and> title t' \<noteq> ''Config'' \<and> title t' \<noteq> ''Readme''"
    by (simp add: clientTabs_def)
  have e: "find (loginRow username password) (credentialRows t) = Some r
    \<Longrightarrow> r \<in> set (credentialRows t) \<and> trim (cellOr r 0) = username \<and> cellOr r 1 = password"
    by (auto simp: find_Some_iff loginRow_def Let_def)
  show ?thesis
    using a b c d e unfolding userOfRow_result by blast
qed

theorem authenticate_first_match_witness:
  "findClientTabAndSheetIdByUser exampleMaster ''amr'' ''secret''
     = Inr (Some \<lparr>uiTab = ''ClientA'', uiBranch = ''Maadi'', uiRestricted = False,
                   uiLevel = ''L1'', uiPaperMode = False, uiBudgetSheetId = ''sheetA''\<rparr>)"
proof -
  let ?t = "\<lparr>title = ''ClientA'',
       cells = [credentialHeader,
                [''amr'', ''secret'', ''Maadi'', ''N'', ''L1'', ''sheetA''],
                [''mona'', ''pw2'', [], ''N'', ''L2'']]\<rparr>"
  let ?r = "[''amr'', ''secret'', ''Maadi'', ''N'', ''L1'', ''sheetA'']"
  have tabs: "clientTabs exampleMaster = [] @ ?t # []"
    by (simp add: clientTabs_def exampleMaster_def)
  have row: "find (loginRow ''amr'' ''secret'') (credentialRows ?t) = Some ?r"
    by code_simp
  have vals: "idCell ?t = ''sheetA''" "trim (cellOr ?r 2) = ''Maadi''"
    "toUpperCase (trim (cellOr ?r 3)) = ''N''" "toUpperCase (trim (cellOr ?r 4)) = ''L1''"
    "toUpperCase (trim (cellOr ?r 25)) = []"
    by code_simp+
  show ?thesis
    using authenticate_first_match [of exampleMaster "[]" ?t "[]" "''amr''" "''secret''" ?r]
          tabs row vals
    by simp
qed

text \<open>
  Claim C2 is about the status of a failed login. For a wrong password the handler answers
  through \<open>res.json\<close> without setting a status: the failure body goes out with status 200.
\<close>

theorem validateLogin_wrong_password:
  "validateLogin exampleMaster ''amr'' ''wrong'' = \<lparr>status = 200, body = Failure BadCredentials\<rparr>"
  by code_simp

section \<open>Facts about the store\<close>

lemma lastRow_le: "lastRow g \<le> length g"
  unfolding lastRow_def using length_dropWhile_le [of _ "rev g"] by simp

lemma putRows_length:
  "start \<le> length g \<Longrightarrow> length (putRows g start vals) = max (length g) (start + length vals)"
  by (auto simp: putRows_def Let_def)

lemma putRows_nth:
  assumes "start \<le> length g" and "j < max (length g) (start + length vals)"
  shows "putRows g start vals ! j
           = (if start \<le> j \<and> j < start + length vals
              then overwrite (vals ! (j - start)) (rowOr g j) else g ! j)"
proof -
  define g' where "g' = g @ replicate (start + length vals - length g) []"
  have len: "length g' = max (length g) (start + length vals)"
    by (auto simp: g'_def)
  have nth: "g' ! i = rowOr g i" if "i < length g'" for i
    using that by (auto simp: g'_def rowOr_def nth_append)
  have p: "putRows g start vals
             = take start g' @ map2 overwrite vals (take (length vals) (drop start g'))
               @ drop (start + length vals) g'"
    by (simp add: putRows_def g'_def Let_def)
  consider "j < start" | "start \<le> j" "j < start + length vals" | "start + length vals \<le> j"
    by linarith
  then show ?thesis
  proof cases
    case 1
    then have "putRows g start vals ! j = g' ! j"
      using assms len by (simp add: p nth_append)
    then show ?thesis using 1 assms by (simp add: g'_def nth_append)
  next
    case 2
    let ?B = "map2 overwrite vals (take (length vals) (drop start g'))"
    have lb: "length ?B = length vals" using len by simp
    have k: "j - start < length vals" using 2 by linarith
    have "putRows g start vals ! j = (?B @ drop (start + length vals) g') ! (j - start)"
      using 2 len by (simp add: p nth_append)
    also have "\<dots> = ?B ! (j - start)"
      using k lb by (simp add: nth_append)
    also have "\<dots> = overwrite (vals ! (j - start)) (g' ! j)"
      using k len 2 by simp
    finally show ?thesis using 2 len nth [of j] by simp
  next
    case 3
    let ?B = "map2 overwrite vals (take (length vals) (drop start g'))"
    have lb: "length ?B = length vals" using len by simp
    have jl: "j < length g" using 3 assms by auto
    have "putRows g start vals ! j = (?B @ drop (start + length vals) g') ! (j - start)"
      using 3 len by (simp add: p nth_append)
    also have "\<dots> = drop (start + length vals) g' ! (j - start - length vals)"
      using 3 lb by (simp only: nth_append) simp
    also have "\<dots> = g' ! j"
      using 3 len jl by simp
    finally show ?thesis using 3 jl by (simp add: g'_def nth_append)
  qed
qed

lemma putRows_one:
  "i < length g \<Longrightarrow> putRows g i [v] = g[i := overwrite v (g ! i)]"
  by (rule nth_equalityI)
     (auto simp: putRows_length putRows_nth rowOr_def nth_list_update max_def)

lemma clearRows_length:
  "\<forall>i \<in> set idxs. i < length g \<Longrightarrow> length (clearRows g idxs) = length g"
proof (induction idxs arbitrary: g)
  case Nil
  then show ?case by (simp add: clearRows_def)
next
  case (Cons i idxs)
  have "clearRows g (i # idxs) = clearRows (g[i := overwrite (replicate 11 []) (g ! i)]) idxs"
    using Cons.prems by (simp add: clearRows_def putRows_one)
  then show ?case using Cons by simp
qed

lemma overwrite_blank_twice:
  "overwrite (replicate 11 []) (overwrite (replicate 11 []) r) = overwrite (replicate 11 []) r"
  by (simp add: overwrite_def)

lemma clearRows_nth:
  assumes "\<forall>i \<in> set idxs. i < length g" and "j < length g"
  shows "clearRows g idxs ! j
           = (if j \<in> set idxs then overwrite (replicate 11 []) (g ! j) else g ! j)"
  using assms
proof (induction idxs arbitrary: g)
  case Nil
  then show ?case by (simp add: clearRows_def)
next
  case (Cons i idxs)
  let ?g = "g[i := overwrite (replicate 11 []) (g ! i)]"
  have step: "clearRows g (i # idxs) = clearRows ?g idxs"
    using Cons.prems by (simp add: clearRows_def putRows_one)
  have "clearRows ?g idxs ! j
          = (if j \<in> set idxs then overwrite (replicate 11 []) (?g ! j) else ?g ! j)"
    using Cons.prems by (intro Cons.IH) simp_all
  then show ?case
    using Cons.prems step by (auto simp: nth_list_update overwrite_blank_twice)
qed

lemma serialRows_set:
  "set (serialRows e rows s)
     = {i. 1 \<le> i \<and> i < length rows \<and> inMonth e (rows ! i) \<and> trim (cellOr (rows ! i) 10) = s}"
  by (auto simp: serialRows_def)

lemma serialRows_bound: "\<forall>i \<in> set (serialRows e rows s). i < length rows"
  by (simp add: serialRows_set)

lemma inMonth_blank: "cellOr r 0 = [] \<Longrightarrow> \<not> inMonth e r"
  by (simp add: inMonth_def currentDate_def decodeDate_def)

lemma cellOr_overwrite_blank: "cellOr (overwrite (replicate 11 []) r) 0 = []"
  by (simp add: cellOr_def overwrite_def nth_append)

lemma copyAtoK_entered: "map (entered e) (copyAtoK r) = map (cellOr r) [0..<11]"
  by (simp add: copyAtoK_def entered_def comp_def)

lemma requireL2_ok:
  "getUserInfoByUsername m username = Inr (Some u) \<Longrightarrow> toUpperCase (uiLevel u) = ''L2''
     \<Longrightarrow> requireL2 m username a b = Inr u"
  by (simp add: requireL2_def)

section \<open>Approving an order\<close>

lemma serialRows_nonempty:
  "\<exists>i. 1 \<le> i \<and> i < length rows \<and> inMonth e (rows ! i) \<and> trim (cellOr (rows ! i) 10) = s
     \<Longrightarrow> serialRows e rows s \<noteq> []"
  using serialRows_set [of e rows s] by (metis (mono_tags, lifting) empty_iff empty_set mem_Collect_eq)

lemma approveOrder_success:
  assumes "getUserInfoByUsername m username = Inr (Some u)"
      and "toUpperCase (uiLevel u) = ''L2''"
      and "username \<noteq> []"
      and "serialOf (if orderId \<noteq> [] then orderId else serial) = s"
      and "s \<noteq> []"
      and "statusOf (if orderId \<noteq> [] then orderId else serial) = ''waiting''"
      and "serialRows e (waiting (ss (uiBudgetSheetId u))) s \<noteq> []"
  shows "approveOrder e m username orderId serial ss
           = (json Done,
              ss(uiBudgetSheetId u := (ss (uiBudgetSheetId u))
                   \<lparr>waiting := clearRows (waiting (ss (uiBudgetSheetId u)))
                                 (serialRows e (waiting (ss (uiBudgetSheetId u))) s),
                    finalOrders := appendRowsAtoK e (finalOrders (ss (uiBudgetSheetId u)))
                                     (map (\<lambda>idx. copyAtoK (waiting (ss (uiBudgetSheetId u)) ! idx))
                                        (serialRows e (waiting (ss (uiBudgetSheetId u))) s))\<rparr>))"
  using assms by (simp add: approveOrder_def Let_def requireL2_ok)

lemma approveOrder_nothing:
  assumes "getUserInfoByUsername m username = Inr (Some u)"
      and "toUpperCase (uiLevel u) = ''L2''"
      and "username \<noteq> []"
      and "serialOf (if orderId \<noteq> [] then orderId else serial) = s"
      and "s \<noteq> []"
      and "statusOf (if orderId \<noteq> [] then orderId else serial) = ''waiting''"
      and "serialRows e (waiting (ss (uiBudgetSheetId u))) s = []"
  shows "approveOrder e m username orderId serial ss = (failWith 400 NoPendingForSerial, ss)"
  using assms by (simp add: approveOrder_def Let_def requireL2_ok)

lemma copyAtoK_length: "length (copyAtoK r) = 11"
  by (simp add: copyAtoK_def)

lemma overwrite_copy:
  "overwrite (map (entered e) (copyAtoK r)) old = map (cellOr r) [0..<11] @ drop 11 old"
  unfolding overwrite_def copyAtoK_entered by simp

lemma appended_length:
  "vals \<noteq> [] \<Longrightarrow> length (appendRowsAtoK e g vals) = max (length g) (lastRow g + length vals)"
  by (simp add: appendRowsAtoK_def putRows_length lastRow_le)

lemma appended_nth:
  assumes "vals \<noteq> []" and "j < max (length g) (lastRow g + length vals)"
  shows "appendRowsAtoK e g vals ! j
           = (if lastRow g \<le> j \<and> j < lastRow g + length vals
              then overwrite (map (entered e) (vals ! (j - lastRow g))) (rowOr g j) else g ! j)"
  using assms by (auto simp: appendRowsAtoK_def putRows_nth lastRow_le)

lemma serialRows_cleared:
  assumes later: "\<forall>i. 1 \<le> i \<and> i < length rows \<and> inMonth e' (rows ! i)
                      \<and> trim (cellOr (rows ! i) 10) = s \<longrightarrow> inMonth e (rows ! i)"
  shows "serialRows e' (clearRows rows (serialRows e rows s)) s = []"
proof -
  let ?sel = "serialRows e rows s"
  let ?rows' = "clearRows rows ?sel"
  have len: "length ?rows' = length rows"
    by (rule clearRows_length) (rule serialRows_bound)
  have "\<not> (inMonth e' (?rows' ! i) \<and> trim (cellOr (?rows' ! i) 10) = s)"
    if "i \<in> set [1..<length rows]" for i
  proof (cases "i \<in> set ?sel")
    case True
    then have "?rows' ! i = overwrite (replicate 11 []) (rows ! i)"
      using that by (simp add: clearRows_nth serialRows_bound)
    then show ?thesis by (simp add: inMonth_blank cellOr_overwrite_blank)
  next
    case False
    then have same: "?rows' ! i = rows ! i"
      using that by (simp add: clearRows_nth serialRows_bound)
    have "\<not> (inMonth e (rows ! i) \<and> trim (cellOr (rows ! i) 10) = s)"
      using False that by (simp add: serialRows_set)
    then show ?thesis
      unfolding same using later that by auto
  qed
  then show ?thesis
    unfolding serialRows_def [of e' ?rows'] len by (simp add: filter_empty_conv)
qed

lemma serialRows_first_row: "serialRows e [r] s = []"
  by (simp add: serialRows_def)

text \<open>
  Claim C3, as amended. An approver asks for the waiting order with serial \<open>s\<close>, and some
  row below the first row of the waiting sheet is dated in the current month and carries
  that serial (\<open>sel\<close> lists those rows from the top). Then the answer is the success body
  with status 200; every such row is afterwards eleven empty cells followed by what it held
  right of column K, and every other row of the waiting sheet, the first row among them
  whatever it holds, is what it was, at the place it had; the final sheet holds, from the
  row after its last row with a date column that is not blank, the cells A to K of the
  moved rows in their order (a missing cell as an empty one), and is otherwise what it was;
  nothing else in any store changes.
\<close>

theorem approve_moves_rows:
  assumes "getUserInfoByUsername m username = Inr (Some u)"
      and "toUpperCase (uiLevel u) = ''L2''"
      and "username \<noteq> []"
      and "serialOf (if orderId \<noteq> [] then orderId else serial) = s"
      and "s \<noteq> []"
      and "statusOf (if orderId \<noteq> [] then orderId else serial) = ''waiting''"
      and "\<exists>i. 1 \<le> i \<and> i < length (waiting (ss (uiBudgetSheetId u)))
               \<and> inMonth e (waiting (ss (uiBudgetSheetId u)) ! i)
               \<and> trim (cellOr (waiting (ss (uiBudgetSheetId u)) ! i) 10) = s"
  shows "let sid = uiBudgetSheetId u;
             rows = waiting (ss sid);
             final = finalOrders (ss sid);
             sel = filter (\<lambda>i. inMonth e (rows ! i) \<and> trim (cellOr (rows ! i) 10) = s)
                     [1..<length rows];
             res = approveOrder e m username orderId serial ss;
             rows' = waiting (snd res sid);
             final' = finalOrders (snd res sid)
         in fst res = \<lparr>status = 200, body = Done\<rparr>
            \<and> length rows' = length rows
            \<and> (\<forall>i < length rows.
                  rows' ! i = (if 1 \<le> i \<and> inMonth e (rows ! i) \<and> trim (cellOr (rows ! i) 10) = s
                               then replicate 11 [] @ drop 11 (rows ! i) else rows ! i))
            \<and> length final' = max (length final) (lastRow final + length sel)
            \<and> (\<forall>j < length final'.
                  final' ! j = (if lastRow final \<le> j \<and> j < lastRow final + length sel
                                then map (cellOr (rows ! (sel ! (j - lastRow final)))) [0..<11]
                                     @ drop 11 (rowOr final j)
                                else final ! j))
            \<and> cancelledOrders (snd res sid) = cancelledOrders (ss sid)
            \<and> serialB2 (snd res sid) = serialB2 (ss sid)
            \<and> (\<forall>sid'. sid' \<noteq> sid \<longrightarrow> snd res sid' = ss sid')"
proof -
  let ?sid = "uiBudgetSheetId u"
  let ?rows = "waiting (ss ?sid)"
  let ?final = "finalOrders (ss ?sid)"
  let ?sel = "serialRows e ?rows s"
  let ?vals = "map (\<lambda>idx. copyAtoK (?rows ! idx)) ?sel"
  have ne: "?sel \<noteq> []" using assms(7) by (rule serialRows_nonempty)
  have res: "approveOrder e m username orderId serial ss
           = (json Done, ss(?sid := (ss ?sid)\<lparr>waiting := clearRows ?rows ?sel,
                                              finalOrders := appendRowsAtoK e ?final ?vals\<rparr>))"
    using assms(1-6) ne by (rule approveOrder_success)
  have vne: "?vals \<noteq> []" and vlen: "length ?vals = length ?sel" using ne by simp_all
  have w1: "length (clearRows ?rows ?sel) = length ?rows"
    by (rule clearRows_length) (rule serialRows_bound)
  have w2: "clearRows ?rows ?sel ! i
              = (if 1 \<le> i \<and> inMonth e (?rows ! i) \<and> trim (cellOr (?rows ! i) 10) = s
                 then replicate 11 [] @ drop 11 (?rows ! i) else ?rows ! i)"
    if "i < length ?rows" for i
  proof -
    have "clearRows ?rows ?sel ! i
            = (if i \<in> set ?sel then overwrite (replicate 11 []) (?rows ! i) else ?rows ! i)"
      using that by (intro clearRows_nth serialRows_bound)
    then show ?thesis
      using that by (simp add: serialRows_set overwrite_def)
  qed
  have f1: "length (appendRowsAtoK e ?final ?vals) = max (length ?final) (lastRow ?final + length ?sel)"
    using vne by (simp add: appended_length)
  have f2: "appendRowsAtoK e ?final ?vals ! j
              = (if lastRow ?final \<le> j \<and> j < lastRow ?final + length ?sel
                 then map (cellOr (?rows ! (?sel ! (j - lastRow ?final)))) [0..<11]
                      @ drop 11 (rowOr ?final j)
                 else ?final ! j)"
    if "j < length (appendRowsAtoK e ?final ?vals)" for j
  proof -
    have "j < max (length ?final) (lastRow ?final + length ?vals)"
      using that f1 vlen by simp
    then have app: "appendRowsAtoK e ?final ?vals ! j
           = (if lastRow ?final \<le> j \<and> j < lastRow ?final + length ?vals
              then overwrite (map (entered e) (?vals ! (j - lastRow ?final))) (rowOr ?final j)
              else ?final ! j)"
      using vne by (rule appended_nth [rotated])
    show ?thesis
    proof (cases "lastRow ?final \<le> j \<and> j < lastRow ?final + length ?sel")
      case True
      then have "j - lastRow ?final < length ?sel" by linarith
      then have "?vals ! (j - lastRow ?final) = copyAtoK (?rows ! (?sel ! (j - lastRow ?final)))"
        by simp
      then show ?thesis
        using True app by (simp add: overwrite_copy)
    next
      case False
      have "appendRowsAtoK e ?final ?vals ! j = ?final ! j"
        unfolding app vlen using False by (rule if_not_P)
      then show ?thesis using False by (simp only: if_False)
    qed
  qed
  show ?thesis
    unfolding Let_def serialRows_def [symmetric] res
    using w1 w2 f1 f2 by (simp add: json_def)
qed

text \<open>
  Claim C4, as amended. When some row below the first row of the waiting sheet is dated in
  the current month and carries the serial, the approval succeeds. The same request
  repeated on the stores it leaves, at a time \<open>e'\<close> of its own at which every row of the
  serial that is in the current month was already so at the first request (the same month,
  for one), finds no row: it answers 400 with the message that nothing is pending for the
  serial, and changes nothing.
\<close>

theorem approve_twice:
  assumes "getUserInfoByUsername m username = Inr (Some u)"
      and "toUpperCase (uiLevel u) = ''L2''"
      and "username \<noteq> []"
      and "serialOf (if orderId \<noteq> [] then orderId else serial) = s"
      and "s \<noteq> []"
      and "statusOf (if orderId \<noteq> [] then orderId else serial) = ''waiting''"
      and "\<exists>i. 1 \<le> i \<and> i < length (waiting (ss (uiBudgetSheetId u)))
               \<and> inMonth e (waiting (ss (uiBudgetSheetId u)) ! i)
               \<and> trim (cellOr (waiting (ss (uiBudgetSheetId u)) ! i) 10) = s"
      and "\<forall>i. 1 \<le> i \<and> i < length (waiting (ss (uiBudgetSheetId u)))
               \<and> inMonth e' (waiting (ss (uiBudgetSheetId u)) ! i)
               \<and> trim (cellOr (waiting (ss (uiBudgetSheetId u)) ! i) 10) = s
               \<longrightarrow> inMonth e (waiting (ss (uiBudgetSheetId u)) ! i)"
  shows "fst (approveOrder e m username orderId serial ss) = \<lparr>status = 200, body = Done\<rparr>
         \<and> approveOrder e' m username orderId serial (snd (approveOrder e m username orderId serial ss))
             = (\<lparr>status = 400, body = Failure NoPendingForSerial\<rparr>,
                snd (approveOrder e m username orderId serial ss))"
proof -
  let ?sid = "uiBudgetSheetId u"
  let ?rows = "waiting (ss ?sid)"
  let ?sel = "serialRows e ?rows s"
  let ?vals = "map (\<lambda>idx. copyAtoK (?rows ! idx)) ?sel"
  let ?ss' = "ss(?sid := (ss ?sid)\<lparr>waiting := clearRows ?rows ?sel,
                        finalOrders := appendRowsAtoK e (finalOrders (ss ?sid)) ?vals\<rparr>)"
  have ne: "?sel \<noteq> []" using assms(7) by (rule serialRows_nonempty)
  have res: "approveOrder e m username orderId serial ss = (json Done, ?ss')"
    using assms(1-6) ne by (rule approveOrder_success)
  have "serialRows e' (clearRows ?rows ?sel) s = []"
    using assms(8) by (rule serialRows_cleared)
  then have "serialRows e' (waiting (?ss' ?sid)) s = []"
    by simp
  with assms(1-6) have "approveOrder e' m username orderId serial ?ss'
                          = (failWith 400 NoPendingForSerial, ?ss')"
    by (rule approveOrder_nothing)
  then show ?thesis
    unfolding res by (simp add: json_def failWith_def)
qed
lemma example_found:
  "\<exists>i. 1 \<le> i \<and> i < length (waiting (exampleStores (uiBudgetSheetId mona)))
        \<and> inMonth exampleHost (waiting (exampleStores (uiBudgetSheetId mona)) ! i)
        \<and> trim (cellOr (waiting (exampleStores (uiBudgetSheetId mona)) ! i) 10) = ''AA1''"
  by (rule exI [of _ 1])
     (simp add: mona_sheet example_waiting example_inMonth cellOr_def trim_examples)

theorem approve_moves_rows_witness:
  "fst (approveOrder exampleHost exampleMaster ''mona'' ''AA1__waiting'' [] exampleStores)
     = \<lparr>status = 200, body = Done\<rparr>
   \<and> waiting (snd (approveOrder exampleHost exampleMaster ''mona'' ''AA1__waiting'' [] exampleStores)
        ''sheetA'') ! 1
     = replicate 11 []
   \<and> waiting (snd (approveOrder exampleHost exampleMaster ''mona'' ''AA1__waiting'' [] exampleStores)
        ''sheetA'') ! 2
     = [''46315'', ''Maadi'', ''amr'', ''P2'', ''Water'', ''5'', ''10'', ''Drinks'', ''2'', [], ''AA1'']
   \<and> finalOrders (snd (approveOrder exampleHost exampleMaster ''mona'' ''AA1__waiting'' [] exampleStores)
        ''sheetA'') ! 1
     = [''2026-11-03 09:15:00'', ''Maadi'', ''amr'', ''P1'', ''Juice'', ''10'', ''30'',
        ''Drinks'', ''3'', [], ''AA1'']"
proof -
  let ?res = "approveOrder exampleHost exampleMaster ''mona'' ''AA1__waiting'' [] exampleStores"
  let ?rows = "waiting (exampleStores ''sheetA'')"
  let ?final = "finalOrders (exampleStores ''sheetA'')"
  note t = approve_moves_rows
    [where m = exampleMaster and username = "''mona''" and u = mona
       and orderId = "''AA1__waiting''" and serial = "[]" and s = "''AA1''"
       and ss = exampleStores and e = exampleHost,
     OF mona_found mona_level _ example_request(1) _ example_request(2) example_found,
     unfolded Let_def mona_sheet]
  have t1: "fst ?res = \<lparr>status = 200, body = Done\<rparr>"
    using t by (rule conjunct1) simp_all
  have t3: "\<forall>i < length ?rows.
              waiting (snd ?res ''sheetA'') ! i
                = (if 1 \<le> i \<and> inMonth exampleHost (?rows ! i) \<and> trim (cellOr (?rows ! i) 10) = ''AA1''
                   then replicate 11 [] @ drop 11 (?rows ! i) else ?rows ! i)"
    using t [THEN conjunct2, THEN conjunct2, THEN conjunct1] by simp
  have t5: "\<forall>j < length (finalOrders (snd ?res ''sheetA'')).
              finalOrders (snd ?res ''sheetA'') ! j
                = (if lastRow ?final \<le> j \<and> j < lastRow ?final + length (serialRows exampleHost ?rows ''AA1'')
                   then map (cellOr (?rows ! (serialRows exampleHost ?rows ''AA1'' ! (j - lastRow ?final)))) [0..<11]
                        @ drop 11 (rowOr ?final j)
                   else ?final ! j)"
    using t [THEN conjunct2, THEN conjunct2, THEN conjunct2, THEN conjunct2, THEN conjunct1]
    unfolding serialRows_def by simp
  have t4: "length (finalOrders (snd ?res ''sheetA''))
              = max (length ?final) (lastRow ?final + length (serialRows exampleHost ?rows ''AA1''))"
    using t [THEN conjunct2, THEN conjunct2, THEN conjunct2, THEN conjunct1]
    unfolding serialRows_def by simp
  have sel: "serialRows exampleHost ?rows ''AA1'' = [1]"
    by (simp add: serialRows_def example_waiting example_inMonth cellOr_def trim_examples
          upt_conv_Cons)
  have fin: "lastRow ?final = 1"
    by (simp add: example_waiting lastRow_def orderHeader_def cellOr_def trim_def isWhiteSpace_def)
  have b: "waiting (snd ?res ''sheetA'') ! 1 = replicate 11 []"
    using t3 [rule_format, of 1]
    by (simp add: example_waiting example_inMonth cellOr_def trim_examples)
  have c: "waiting (snd ?res ''sheetA'') ! 2
     = [''46315'', ''Maadi'', ''amr'', ''P2'', ''Water'', ''5'', ''10'', ''Drinks'', ''2'', [], ''AA1'']"
    using t3 [rule_format, of 2]
    by (simp add: example_waiting example_inMonth)
  have "length ?final = 1"
    by (simp add: example_waiting)
  then have flen: "length (finalOrders (snd ?res ''sheetA'')) = 2"
    using t4 by (simp add: sel fin)
  have cells: "map (cellOr [''2026-11-03 09:15:00'', ''Maadi'', ''amr'', ''P1'', ''Juice'', ''10'',
                   ''30'', ''Drinks'', ''3'', [], ''AA1'']) [0..<11]
                = [''2026-11-03 09:15:00'', ''Maadi'', ''amr'', ''P1'', ''Juice'', ''10'', ''30'',
                   ''Drinks'', ''3'', [], ''AA1'']"
    by code_simp
  have "finalOrders (snd ?res ''sheetA'') ! 1
          = map (cellOr (?rows ! 1)) [0..<11] @ drop 11 (rowOr ?final 1)"
    using t5 [rule_format, of 1] flen by (simp add: sel fin)
  then have d: "finalOrders (snd ?res ''sheetA'') ! 1
     = [''2026-11-03 09:15:00'', ''Maadi'', ''amr'', ''P1'', ''Juice'', ''10'', ''30'',
        ''Drinks'', ''3'', [], ''AA1'']"
    using cells by (simp add: example_waiting rowOr_def del: upt_Suc)
  show ?thesis using t1 b c d by simp
qed

text \<open>
  The claim as stated fails for a line in the first row of the waiting sheet: the scan
  starts at the second row, so the line is dated in the current month and carries the
  serial, and yet the approval answers 400 and moves nothing.
\<close>

theorem approve_leaves_first_row:
  "inMonth exampleHost (waiting (firstRowStores ''sheetA'') ! 0)
   \<and> trim (cellOr (waiting (firstRowStores ''sheetA'') ! 0) 10) = ''AA1''
   \<and> approveOrder exampleHost exampleMaster ''mona'' ''AA1__waiting'' [] firstRowStores
       = (\<lparr>status = 400, body = Failure NoPendingForSerial\<rparr>, firstRowStores)"
proof -
  have "serialRows exampleHost (waiting (firstRowStores (uiBudgetSheetId mona))) ''AA1'' = []"
    by (simp add: mona_sheet firstRow_waiting serialRows_first_row)
  with mona_found mona_level _ example_request(1) _ example_request(2)
  have "approveOrder exampleHost exampleMaster ''mona'' ''AA1__waiting'' [] firstRowStores
          = (failWith 400 NoPendingForSerial, firstRowStores)"
    by (rule approveOrder_nothing) simp_all
  then show ?thesis
    by (simp add: firstRow_waiting example_inMonth cellOr_def trim_examples failWith_def)
qed

lemma later_rows:
  "\<forall>i. 1 \<le> i \<and> i < length (waiting (exampleStores (uiBudgetSheetId mona)))
        \<and> inMonth laterHost (waiting (exampleStores (uiBudgetSheetId mona)) ! i)
        \<and> trim (cellOr (waiting (exampleStores (uiBudgetSheetId mona)) ! i) 10) = ''AA1''
        \<longrightarrow> inMonth exampleHost (waiting (exampleStores (uiBudgetSheetId mona)) ! i)"
proof (intro allI impI)
  fix i
  assume a: "1 \<le> i \<and> i < length (waiting (exampleStores (uiBudgetSheetId mona)))
        \<and> inMonth laterHost (waiting (exampleStores (uiBudgetSheetId mona)) ! i)
        \<and> trim (cellOr (waiting (exampleStores (uiBudgetSheetId mona)) ! i) 10) = ''AA1''"
  then have "i = 1 \<or> i = 2 \<or> i = 3"
    by (auto simp: mona_sheet example_waiting)
  then show "inMonth exampleHost (waiting (exampleStores (uiBudgetSheetId mona)) ! i)"
  proof (elim disjE)
    assume "i = 1"
    then show ?thesis by (simp add: mona_sheet example_waiting example_inMonth)
  next
    assume "i = 2"
    then show ?thesis using a by (simp add: mona_sheet example_waiting later_inMonth)
  next
    assume "i = 3"
    then show ?thesis using a by (simp add: mona_sheet example_waiting cellOr_def trim_examples)
  qed
qed

theorem approve_twice_witness:
  "fst (approveOrder exampleHost exampleMaster ''mona'' ''AA1__waiting'' [] exampleStores)
     = \<lparr>status = 200, body = Done\<rparr>
   \<and> fst (approveOrder laterHost exampleMaster ''mona'' ''AA1__waiting'' []
            (snd (approveOrder exampleHost exampleMaster ''mona'' ''AA1__waiting'' [] exampleStores)))
     = \<lparr>status = 400, body = Failure NoPendingForSerial\<rparr>"
  using approve_twice
    [where m = exampleMaster and username = "''mona''" and u = mona
       and orderId = "''AA1__waiting''" and serial = "[]" and s = "''AA1''"
       and ss = exampleStores and e = exampleHost and e' = laterHost,
     OF mona_found mona_level _ example_request(1) _ example_request(2) example_found later_rows]
  by simp

text \<open>
  The claim as stated fails for a serial whose only line is in the first row of the
  waiting sheet: the first approval does not succeed, it answers 400 as the second does.
\<close>

theorem approve_first_row_twice:
  "fst (approveOrder exampleHost exampleMaster ''mona'' ''AA1__waiting'' [] firstRowStores)
     = \<lparr>status = 400, body = Failure NoPendingForSerial\<rparr>
   \<and> fst (approveOrder laterHost exampleMaster ''mona'' ''AA1__waiting'' []
            (snd (approveOrder exampleHost exampleMaster ''mona'' ''AA1__waiting'' [] firstRowStores)))
     = \<lparr>status = 400, body = Failure NoPendingForSerial\<rparr>"
proof -
  have none: "serialRows e (waiting (firstRowStores (uiBudgetSheetId mona))) ''AA1'' = []" for e
    by (simp add: mona_sheet firstRow_waiting serialRows_first_row)
  have "approveOrder e exampleMaster ''mona'' ''AA1__waiting'' [] firstRowStores
          = (failWith 400 NoPendingForSerial, firstRowStores)" for e
    using mona_found mona_level _ example_request(1) _ example_request(2) none
    by (rule approveOrder_nothing) simp_all
  then show ?thesis
    by (simp add: failWith_def)
qed
section \<open>Editing a waiting order\<close>

lemma trim_Nil: "trim [] = []"
  by (simp add: trim_def)

lemma editTarget_wide: "editTarget e rows s code i \<Longrightarrow> s \<noteq> [] \<Longrightarrow> 10 < length (rows ! i)"
  by (auto simp: editTarget_def cellOr_def trim_Nil split: if_splits)

lemma indexStep_apply:
  "indexStep e rows s index i code
     = (if code \<noteq> [] \<and> code \<noteq> ''__proto__'' \<and> inMonth e (rows ! i)
           \<and> trim (cellOr (rows ! i) 10) = s \<and> cellOr (rows ! i) 3 = code
        then Some i else index code)"
  by (auto simp: indexStep_def Let_def)

lemma index_upto:
  "n \<le> length rows \<Longrightarrow>
   (foldl (indexStep e rows s) Map.empty [1..<n] code = Some r
      \<longleftrightarrow> code \<noteq> [] \<and> code \<noteq> ''__proto__'' \<and> editTarget e rows s code r \<and> r < n
          \<and> (\<forall>j. r < j \<and> j < n \<longrightarrow> \<not> editTarget e rows s code j))"
proof (induction n arbitrary: r)
  case 0
  then show ?case by simp
next
  case (Suc n)
  show ?case
  proof (cases "n = 0")
    case True
    then show ?thesis by (auto simp: editTarget_def)
  next
    case False
    then have upt: "[1..<Suc n] = [1..<n] @ [n]" by simp
    have n: "n < length rows" "1 \<le> n" using Suc.prems False by simp_all
    have IH: "\<And>r. foldl (indexStep e rows s) Map.empty [1..<n] code = Some r
      \<longleftrightarrow> code \<noteq> [] \<and> code \<noteq> ''__proto__'' \<and> editTarget e rows s code r \<and> r < n
          \<and> (\<forall>j. r < j \<and> j < n \<longrightarrow> \<not> editTarget e rows s code j)"
      using Suc.IH Suc.prems by simp
    show ?thesis
    proof (cases "code \<noteq> [] \<and> code \<noteq> ''__proto__'' \<and> editTarget e rows s code n")
      case True
      then have "foldl (indexStep e rows s) Map.empty [1..<Suc n] code = Some n"
        unfolding upt by (simp add: indexStep_apply editTarget_def)
      moreover have "r < Suc n \<and> (\<forall>j. r < j \<and> j < Suc n \<longrightarrow> \<not> editTarget e rows s code j)
                       \<longleftrightarrow> r = n" if "editTarget e rows s code r"
        using True that by (metis less_Suc_eq not_less_iff_gr_or_eq)
      ultimately show ?thesis using True by auto
    next
      case no: False
      then have "foldl (indexStep e rows s) Map.empty [1..<Suc n] code
                   = foldl (indexStep e rows s) Map.empty [1..<n] code"
        unfolding upt using n by (auto simp: indexStep_apply editTarget_def)
      moreover have "(r < Suc n \<and> (\<forall>j. r < j \<and> j < Suc n \<longrightarrow> \<not> editTarget e rows s code j))
                       \<longleftrightarrow> (r < n \<and> (\<forall>j. r < j \<and> j < n \<longrightarrow> \<not> editTarget e rows s code j))"
        if "code \<noteq> []" "code \<noteq> ''__proto__''" "editTarget e rows s code r"
        using no that by (metis less_Suc_eq)
      ultimately show ?thesis using IH [of r] by auto
    qed
  qed
qed

lemma buildIndex_Some:
  "buildIndex e rows s code = Some r
     \<longleftrightarrow> code \<noteq> [] \<and> code \<noteq> ''__proto__'' \<and> lastTarget e rows s code r"
proof -
  have "(\<forall>j. r < j \<and> j < length rows \<longrightarrow> \<not> editTarget e rows s code j)
          \<longleftrightarrow> \<not> list_ex (editTarget e rows s code) [Suc r..<length rows]"
    by (auto simp: list_ex_iff)
  moreover have "editTarget e rows s code r \<Longrightarrow> r < length rows"
    by (simp add: editTarget_def)
  ultimately show ?thesis
    unfolding buildIndex_def lastTarget_def using index_upto [of "length rows" rows e s code r]
    by auto
qed

lemma index_upto_None:
  "n \<le> length rows \<Longrightarrow> code \<noteq> [] \<Longrightarrow> code \<noteq> ''__proto__'' \<Longrightarrow>
   (foldl (indexStep e rows s) Map.empty [1..<n] code = None
      \<longleftrightarrow> (\<forall>i < n. \<not> editTarget e rows s code i))"
proof (induction n)
  case 0
  then show ?case by simp
next
  case (Suc n)
  show ?case
  proof (cases "n = 0")
    case True
    then show ?thesis by (auto simp: editTarget_def)
  next
    case False
    then have upt: "[1..<Suc n] = [1..<n] @ [n]" by simp
    have "foldl (indexStep e rows s) Map.empty [1..<Suc n] code
            = (if editTarget e rows s code n then Some n
               else foldl (indexStep e rows s) Map.empty [1..<n] code)"
      unfolding upt using Suc.prems False by (auto simp: indexStep_apply editTarget_def)
    then show ?thesis
      using Suc by (auto simp: less_Suc_eq)
  qed
qed

lemma buildIndex_None:
  "code \<noteq> [] \<Longrightarrow> code \<noteq> ''__proto__'' \<Longrightarrow>
   (buildIndex e rows s code = None \<longleftrightarrow> (\<forall>i. \<not> editTarget e rows s code i))"
  unfolding buildIndex_def using index_upto_None [of "length rows" rows code e s]
  by (auto simp: editTarget_def)

lemma buildIndex_proto: "buildIndex e rows s ''__proto__'' = None"
  using buildIndex_Some [of e rows s "''__proto__''"] by (cases "buildIndex e rows s ''__proto__''") auto


text \<open>The writes that one item of an edit request adds to the batch.\<close>

lemma putCell_inside:
  "r < length g \<Longrightarrow> c < length (g ! r) \<Longrightarrow> putCell g r c v = g[r := (g ! r)[c := v]]"
  by (simp add: putCell_def Let_def)

lemma applyBatch_append: "applyBatch e g (b1 @ b2) = applyBatch e (applyBatch e g b1) b2"
  by (simp add: applyBatch_def)

lemma applyBatch_pair:
  assumes "r < length g" and "8 < length (g ! r)"
  shows "applyBatch e g [(Suc r, 8, JNum q), (Suc r, 6, JNum t)]
           = g[r := (g ! r)[8 := display e q, 6 := display e t]]"
  using assms by (simp add: applyBatch_def putCell_inside entered_def)

lemma editBatch_append_Inr:
  "editBatch rows index items = Inr b1 \<Longrightarrow> editBatch rows index others = Inr b2
     \<Longrightarrow> editBatch rows index (items @ others) = Inr (b1 @ b2)"
proof (induction items arbitrary: b1)
  case Nil
  then show ?case by simp
next
  case (Cons it items)
  show ?case
  proof (cases "eiProductCode it = []")
    case True
    then show ?thesis using Cons by simp
  next
    case False
    show ?thesis
    proof (cases "lookupIndex index (eiProductCode it)")
      case Missing
      then show ?thesis using Cons False by simp
    next
      case (Own rowIdx)
      then obtain rest where rest: "editBatch rows index items = Inr rest"
        using Cons.prems(1) False by (auto simp: Let_def split: sum.splits)
      then have "editBatch rows index (items @ others) = Inr (rest @ b2)"
        using Cons.IH Cons.prems(2) by simp
      then show ?thesis
        using Cons.prems(1) False Own rest by (auto simp: Let_def)
    next
      case Inherited
      then show ?thesis using Cons.prems(1) False by simp
    qed
  qed
qed

lemma lookupIndex_plain:
  "code \<notin> set objectPrototypeKeys \<Longrightarrow>
   lookupIndex index code = (case index code of None \<Rightarrow> Missing | Some i \<Rightarrow> Own i)"
  by (simp add: lookupIndex_def split: option.splits)

lemma editBatch_one:
  assumes "eiProductCode it \<notin> set objectPrototypeKeys"
  shows "editBatch rows index [it]
           = Inr (if eiProductCode it = [] then []
                  else case index (eiProductCode it) of
                         None \<Rightarrow> []
                       | Some r \<Rightarrow>
                           [(Suc r, 8, JNum (max0 (orNum (parseIntOf (eiQuantity it)) (Fin 0)))),
                            (Suc r, 6, JNum (mulNum (orNum (parseFloat (cellOr (rows ! r) 5)) (Fin 0))
                                              (max0 (orNum (parseIntOf (eiQuantity it)) (Fin 0)))))])"
  using assms by (simp add: lookupIndex_plain Let_def split: option.splits)

text \<open>
  The sheet after the batch of a request without inherited keys: each row is as edited by
  the last item that names a code whose index entry is the row.
\<close>

lemma editBatch_effect:
  assumes keys: "\<forall>it \<in> set items. eiProductCode it \<notin> set objectPrototypeKeys"
      and wide: "\<And>code r. index code = Some r \<Longrightarrow> r < length rows \<and> 8 < length (rows ! r)"
  shows "\<exists>batch. editBatch rows index items = Inr batch
           \<and> (batch = [] \<longleftrightarrow> (\<forall>it \<in> set items. eiProductCode it = [] \<or> index (eiProductCode it) = None))
           \<and> length (applyBatch e rows batch) = length rows
           \<and> (\<forall>r < length rows.
                 applyBatch e rows batch ! r
                   = (case find (\<lambda>it. eiProductCode it \<noteq> [] \<and> index (eiProductCode it) = Some r)
                             (rev items) of
                        None \<Rightarrow> rows ! r
                      | Some it \<Rightarrow> editedRow e (rows ! r) (eiQuantity it)))"
  using keys
proof (induction items rule: rev_induct)
  case Nil
  then show ?case by (simp add: applyBatch_def)
next
  case (snoc it items)
  have "\<forall>it \<in> set items. eiProductCode it \<notin> set objectPrototypeKeys"
    using snoc.prems by simp
  from snoc.IH [OF this] obtain batch where IH:
    "editBatch rows index items = Inr batch
       \<and> (batch = [] \<longleftrightarrow> (\<forall>it \<in> set items. eiProductCode it = [] \<or> index (eiProductCode it) = None))
       \<and> length (applyBatch e rows batch) = length rows
       \<and> (\<forall>r < length rows.
             applyBatch e rows batch ! r
               = (case find (\<lambda>it. eiProductCode it \<noteq> [] \<and> index (eiProductCode it) = Some r)
                         (rev items) of
                    None \<Rightarrow> rows ! r
                  | Some it \<Rightarrow> editedRow e (rows ! r) (eiQuantity it)))" ..
  note b = IH [THEN conjunct1]
   and be = IH [THEN conjunct2, THEN conjunct1]
   and len = IH [THEN conjunct2, THEN conjunct2, THEN conjunct1]
   and nths = IH [THEN conjunct2, THEN conjunct2, THEN conjunct2]
  have nth: "applyBatch e rows batch ! r
                   = (case find (\<lambda>it. eiProductCode it \<noteq> [] \<and> index (eiProductCode it) = Some r)
                             (rev items) of
                        None \<Rightarrow> rows ! r
                      | Some it \<Rightarrow> editedRow e (rows ! r) (eiQuantity it))"
    if "r < length rows" for r
    using nths that by simp
  let ?g = "applyBatch e rows batch"
  let ?q = "max0 (orNum (parseIntOf (eiQuantity it)) (Fin 0))"
  have key: "eiProductCode it \<notin> set objectPrototypeKeys" using snoc.prems by simp
  have fnd: "find P (rev (items @ [it])) = (if P it then Some it else find P (rev items))" for P
    by simp
  show ?case
  proof (cases "eiProductCode it = [] \<or> index (eiProductCode it) = None")
    case True
    then have one: "editBatch rows index [it] = Inr []"
      using editBatch_one [OF key] by auto
    have all: "editBatch rows index (items @ [it]) = Inr batch"
      using editBatch_append_Inr [OF b one] by simp
    have no: "(eiProductCode it \<noteq> [] \<and> index (eiProductCode it) = Some r) = False" for r
      using True by auto
    have e1: "batch = [] \<longleftrightarrow> (\<forall>it \<in> set (items @ [it]). eiProductCode it = [] \<or> index (eiProductCode it) = None)"
      using be True by simp
    have e2: "\<forall>r < length rows.
                 applyBatch e rows batch ! r
                   = (case find (\<lambda>it. eiProductCode it \<noteq> [] \<and> index (eiProductCode it) = Some r)
                             (rev (items @ [it])) of
                        None \<Rightarrow> rows ! r
                      | Some it \<Rightarrow> editedRow e (rows ! r) (eiQuantity it))"
      unfolding fnd no if_False by (rule nths)
    show ?thesis
      by (rule exI [of _ batch], intro conjI) (fact all e1 len e2)+
  next
    case False
    then obtain r0 where r0: "index (eiProductCode it) = Some r0" and code: "eiProductCode it \<noteq> []"
      by auto
    let ?t = "mulNum (orNum (parseFloat (cellOr (rows ! r0) 5)) (Fin 0)) ?q"
    let ?b = "batch @ [(Suc r0, 8, JNum ?q), (Suc r0, 6, JNum ?t)]"
    have one: "editBatch rows index [it] = Inr [(Suc r0, 8, JNum ?q), (Suc r0, 6, JNum ?t)]"
      using editBatch_one [OF key] r0 code by simp
    have all: "editBatch rows index (items @ [it]) = Inr ?b"
      using editBatch_append_Inr [OF b one] by simp
    have r0l: "r0 < length rows" and r0w: "8 < length (rows ! r0)"
      using wide [OF r0] by simp_all
    have gr: "?g ! r0 = rows ! r0 \<or> (\<exists>x. ?g ! r0 = editedRow e (rows ! r0) x)"
      using nth [OF r0l] by (cases "find (\<lambda>it. eiProductCode it \<noteq> [] \<and> index (eiProductCode it) = Some r0) (rev items)") auto
    have ew: "length (editedRow e r x) = length r" for r x
      by (simp add: editedRow_def)
    have gw: "length (?g ! r0) = length (rows ! r0)"
      using gr ew by auto
    have pair: "applyBatch e ?g [(Suc r0, 8, JNum ?q), (Suc r0, 6, JNum ?t)]
                  = ?g[r0 := (?g ! r0)[8 := display e ?q, 6 := display e ?t]]"
      by (rule applyBatch_pair) (use r0l r0w gw len in simp_all)
    have app: "applyBatch e rows ?b = ?g[r0 := (?g ! r0)[8 := display e ?q, 6 := display e ?t]]"
      unfolding applyBatch_append by (rule pair)
    have c5: "cellOr (editedRow e r x) 5 = cellOr r 5" for r x
      by (simp add: editedRow_def cellOr_def)
    have again: "(editedRow e r x)[8 := a, 6 := c] = r[8 := a, 6 := c]" for r x a c
      by (simp add: editedRow_def list_update_swap [of 6 8])
    have over: "(?g ! r0)[8 := display e ?q, 6 := display e ?t] = editedRow e (rows ! r0) (eiQuantity it)"
    proof -
      have "(?g ! r0)[8 := display e ?q, 6 := display e ?t] = (rows ! r0)[8 := display e ?q, 6 := display e ?t]"
        using gr again by auto
      then show ?thesis by (simp add: editedRow_def)
    qed
    have e0: "applyBatch e rows ?b = ?g[r0 := editedRow e (rows ! r0) (eiQuantity it)]"
      using app over by simp
    have e1: "?b = [] \<longleftrightarrow> (\<forall>it \<in> set (items @ [it]). eiProductCode it = [] \<or> index (eiProductCode it) = None)"
      using r0 code by auto
    have e3: "length (applyBatch e rows ?b) = length rows"
      unfolding e0 using len by simp
    have e2: "\<forall>r < length rows.
                 applyBatch e rows ?b ! r
                   = (case find (\<lambda>it. eiProductCode it \<noteq> [] \<and> index (eiProductCode it) = Some r)
                             (rev (items @ [it])) of
                        None \<Rightarrow> rows ! r
                      | Some it \<Rightarrow> editedRow e (rows ! r) (eiQuantity it))"
    proof (intro allI impI)
      fix r assume r: "r < length rows"
      show "applyBatch e rows ?b ! r
                   = (case find (\<lambda>it. eiProductCode it \<noteq> [] \<and> index (eiProductCode it) = Some r)
                             (rev (items @ [it])) of
                        None \<Rightarrow> rows ! r
                      | Some it \<Rightarrow> editedRow e (rows ! r) (eiQuantity it))"
      proof (cases "r = r0")
        case True
        then show ?thesis unfolding e0 fnd using r0 code len r by simp
      next
        case False
        then show ?thesis unfolding e0 fnd using r0 code len r nth [OF r] by simp
      qed
    qed
    show ?thesis
      by (rule exI [of _ ?b], intro conjI) (fact all e1 e3 e2)+
  qed
qed

lemma editBatch_none:
  "\<forall>it \<in> set items. eiProductCode it \<noteq> [] \<longrightarrow> index (eiProductCode it) = None
     \<Longrightarrow> editBatch rows index items = Inr [] \<or> editBatch rows index items = Inl TypeError"
proof (induction items)
  case Nil
  then show ?case by simp
next
  case (Cons it items)
  then have IH: "editBatch rows index items = Inr [] \<or> editBatch rows index items = Inl TypeError"
    by simp
  show ?case
  proof (cases "eiProductCode it = []")
    case True
    then show ?thesis using IH by simp
  next
    case False
    then have "index (eiProductCode it) = None" using Cons.prems by simp
    then have "lookupIndex index (eiProductCode it) = Missing
                 \<or> lookupIndex index (eiProductCode it) = Inherited"
      by (simp add: lookupIndex_def)
    then show ?thesis using False IH by auto
  qed
qed

lemma editBatch_plain:
  "\<forall>it \<in> set items. eiProductCode it \<notin> set objectPrototypeKeys
     \<Longrightarrow> \<exists>b. editBatch rows index items = Inr b"
proof (induction items)
  case Nil
  then show ?case by simp
next
  case (Cons it items)
  then obtain b where b: "editBatch rows index items = Inr b" by auto
  have "eiProductCode it \<notin> set objectPrototypeKeys" using Cons.prems by simp
  then have "lookupIndex index (eiProductCode it) \<noteq> Inherited"
    by (simp add: lookupIndex_plain split: option.splits)
  then show ?case
    using b by (cases "lookupIndex index (eiProductCode it)") (simp_all add: Let_def)
qed

lemma buildIndex_no_target:
  assumes "\<forall>i. \<not> editTarget e rows s code i"
  shows "buildIndex e rows s code = None"
proof (cases "buildIndex e rows s code")
  case None
  then show ?thesis .
next
  case (Some r)
  then have "lastTarget e rows s code r" by (simp add: buildIndex_Some)
  then show ?thesis using assms by (simp add: lastTarget_def)
qed

lemma editedRow_frame:
  "length (editedRow e r q) = length r"
  "c \<noteq> 6 \<Longrightarrow> c \<noteq> 8 \<Longrightarrow> editedRow e r q ! c = r ! c"
  by (simp_all add: editedRow_def)

text \<open>
  The answer to an edit request that passes the checks and names no member of
  \<open>Object.prototype\<close> as a product code.
\<close>

lemma updateWaitingOrder_rows:
  assumes user: "getUserInfoByUsername m username = Inr (Some u)"
      and level: "toUpperCase (uiLevel u) = ''L2''"
      and name: "username \<noteq> []"
      and serial: "serialOf orderId = s" "s \<noteq> []"
      and state: "statusOf orderId = ''waiting''"
      and keys: "\<forall>it \<in> set items. eiProductCode it \<notin> set objectPrototypeKeys"
      and some: "\<exists>it \<in> set items. eiProductCode it \<noteq> []
                   \<and> (\<exists>i. editTarget e (waiting (ss (uiBudgetSheetId u))) s (eiProductCode it) i)"
  shows "\<exists>rows'. updateWaitingOrder e m username orderId items ss
                   = (json Done, ss(uiBudgetSheetId u := (ss (uiBudgetSheetId u))\<lparr>waiting := rows'\<rparr>))
           \<and> length rows' = length (waiting (ss (uiBudgetSheetId u)))
           \<and> (\<forall>r < length (waiting (ss (uiBudgetSheetId u))).
                 rows' ! r
                   = (case find (\<lambda>it. eiProductCode it \<noteq> []
                                     \<and> lastTarget e (waiting (ss (uiBudgetSheetId u))) s
                                          (eiProductCode it) r)
                             (rev items) of
                        None \<Rightarrow> waiting (ss (uiBudgetSheetId u)) ! r
                      | Some it \<Rightarrow> editedRow e (waiting (ss (uiBudgetSheetId u)) ! r) (eiQuantity it)))"
proof -
  let ?sid = "uiBudgetSheetId u"
  let ?rows = "waiting (ss ?sid)"
  let ?index = "buildIndex e ?rows s"
  have proto: "''__proto__'' \<in> set objectPrototypeKeys"
    by (simp add: objectPrototypeKeys_def)
  have wide: "r < length ?rows \<and> 8 < length (?rows ! r)" if "?index code = Some r" for code r
  proof -
    have t: "editTarget e ?rows s code r"
      using that by (simp add: buildIndex_Some lastTarget_def)
    then have "10 < length (?rows ! r)" using serial(2) by (rule editTarget_wide)
    then show ?thesis using t by (simp add: editTarget_def)
  qed
  have "\<exists>batch. editBatch ?rows ?index items = Inr batch
       \<and> (batch = [] \<longleftrightarrow> (\<forall>it \<in> set items. eiProductCode it = [] \<or> ?index (eiProductCode it) = None))
       \<and> length (applyBatch e ?rows batch) = length ?rows
       \<and> (\<forall>r < length ?rows.
             applyBatch e ?rows batch ! r
               = (case find (\<lambda>it. eiProductCode it \<noteq> [] \<and> ?index (eiProductCode it) = Some r)
                         (rev items) of
                    None \<Rightarrow> ?rows ! r
                  | Some it \<Rightarrow> editedRow e (?rows ! r) (eiQuantity it)))"
    using keys by (rule editBatch_effect) (rule wide)
  then obtain batch where B:
    "editBatch ?rows ?index items = Inr batch
       \<and> (batch = [] \<longleftrightarrow> (\<forall>it \<in> set items. eiProductCode it = [] \<or> ?index (eiProductCode it) = None))
       \<and> length (applyBatch e ?rows batch) = length ?rows
       \<and> (\<forall>r < length ?rows.
             applyBatch e ?rows batch ! r
               = (case find (\<lambda>it. eiProductCode it \<noteq> [] \<and> ?index (eiProductCode it) = Some r)
                         (rev items) of
                    None \<Rightarrow> ?rows ! r
                  | Some it \<Rightarrow> editedRow e (?rows ! r) (eiQuantity it)))" ..
  note b = B [THEN conjunct1]
   and be = B [THEN conjunct2, THEN conjunct1]
   and len = B [THEN conjunct2, THEN conjunct2, THEN conjunct1]
   and nths = B [THEN conjunct2, THEN conjunct2, THEN conjunct2]
  obtain it where it: "it \<in> set items" "eiProductCode it \<noteq> []"
      and "\<exists>i. editTarget e ?rows s (eiProductCode it) i"
    using some by blast
  moreover have "eiProductCode it \<noteq> ''__proto__''"
    using keys it(1) proto by auto
  ultimately have "?index (eiProductCode it) \<noteq> None"
    by (simp add: buildIndex_None)
  then have ne: "batch \<noteq> []"
    using be it by auto
  have items: "items \<noteq> []" using it(1) by auto
  have res: "updateWaitingOrder e m username orderId items ss
               = (json Done, ss(?sid := (ss ?sid)\<lparr>waiting := applyBatch e ?rows batch\<rparr>))"
    using name serial state items ne b
    by (simp add: updateWaitingOrder_def Let_def requireL2_ok [OF user level])
  have same: "find (\<lambda>it. eiProductCode it \<noteq> [] \<and> ?index (eiProductCode it) = Some r) (rev items)
                = find (\<lambda>it. eiProductCode it \<noteq> [] \<and> lastTarget e ?rows s (eiProductCode it) r)
                    (rev items)" for r
  proof (rule find_cong [OF refl])
    fix x assume "x \<in> set (rev items)"
    then have "eiProductCode x \<noteq> ''__proto__''"
      using keys proto by auto
    then show "(eiProductCode x \<noteq> [] \<and> ?index (eiProductCode x) = Some r)
                 = (eiProductCode x \<noteq> [] \<and> lastTarget e ?rows s (eiProductCode x) r)"
      by (auto simp: buildIndex_Some)
  qed
  show ?thesis
    by (rule exI [of _ "applyBatch e ?rows batch"], intro conjI)
       (use res len nths in \<open>simp_all add: same\<close>)
qed

text \<open>
  Claim C10. An edit request is given whose product codes match no row of the waiting
  sheet: no row below the first row is dated in the current month and carries the serial
  of the request together with the code of an item. Then the answer is a failure, with
  status 400, 403 or 500, and every store is what it was. When the request is complete, the
  order is a waiting one, the user is an approver and no code names a member of
  \<open>Object.prototype\<close>, the answer is status 400 with the message that no line was found.
\<close>

theorem edit_without_match:
  assumes "\<And>u. getUserInfoByUsername m username = Inr (Some u) \<Longrightarrow>
             \<forall>it \<in> set items. \<forall>i.
               \<not> editTarget e (waiting (ss (uiBudgetSheetId u))) (serialOf orderId) (eiProductCode it) i"
  shows "snd (updateWaitingOrder e m username orderId items ss) = ss
         \<and> (\<exists>msg. fst (updateWaitingOrder e m username orderId items ss) = failWith 400 msg
                 \<or> fst (updateWaitingOrder e m username orderId items ss) = failWith 403 msg
                 \<or> fst (updateWaitingOrder e m username orderId items ss) = failWith 500 msg)
         \<and> (username \<noteq> [] \<and> serialOf orderId \<noteq> [] \<and> items \<noteq> []
              \<and> statusOf orderId = ''waiting''
              \<and> (\<exists>u. getUserInfoByUsername m username = Inr (Some u)
                       \<and> toUpperCase (uiLevel u) = ''L2'')
              \<and> (\<forall>it \<in> set items. eiProductCode it \<notin> set objectPrototypeKeys)
              \<longrightarrow> fst (updateWaitingOrder e m username orderId items ss)
                    = \<lparr>status = 400, body = Failure NoLinesToEdit\<rparr>)"
proof (cases "requireL2 m username EditNotAllowed SaveError")
  case (Inl r)
  then have r: "r = failWith 500 SaveError \<or> r = failWith 400 UserNotFound
                  \<or> r = failWith 403 EditNotAllowed"
    by (auto simp: requireL2_def split: sum.splits option.splits if_splits)
  have no: "\<not> (\<exists>u. getUserInfoByUsername m username = Inr (Some u)
                    \<and> toUpperCase (uiLevel u) = ''L2'')"
    using Inl by (auto simp: requireL2_def)
  have "updateWaitingOrder e m username orderId items ss
          = (failWith 400 IncompleteData, ss)
        \<or> updateWaitingOrder e m username orderId items ss = (failWith 400 CannotEditStatus, ss)
        \<or> updateWaitingOrder e m username orderId items ss = (r, ss)"
    using Inl by (simp add: updateWaitingOrder_def Let_def)
  then show ?thesis
    using r no by (elim disjE) (simp_all, blast+)
next
  case (Inr u)
  then have user: "getUserInfoByUsername m username = Inr (Some u)"
    and level: "toUpperCase (uiLevel u) = ''L2''"
    by (auto simp: requireL2_def split: sum.splits option.splits if_splits)
  let ?rows = "waiting (ss (uiBudgetSheetId u))"
  let ?index = "buildIndex e ?rows (serialOf orderId)"
  have "\<forall>it \<in> set items. eiProductCode it \<noteq> [] \<longrightarrow> ?index (eiProductCode it) = None"
    using assms [OF user] by (simp add: buildIndex_no_target)
  then have batch: "editBatch ?rows ?index items = Inr []
                      \<or> editBatch ?rows ?index items = Inl TypeError"
    by (rule editBatch_none)
  have plain: "editBatch ?rows ?index items = Inr []"
    if "\<forall>it \<in> set items. eiProductCode it \<notin> set objectPrototypeKeys"
    using editBatch_plain [OF that, of ?rows ?index] batch by auto
  have res: "updateWaitingOrder e m username orderId items ss
          = (failWith 400 IncompleteData, ss)
        \<or> updateWaitingOrder e m username orderId items ss = (failWith 400 CannotEditStatus, ss)
        \<or> updateWaitingOrder e m username orderId items ss = (failWith 500 SaveError, ss)
        \<or> updateWaitingOrder e m username orderId items ss = (failWith 400 NoLinesToEdit, ss)"
    using Inr batch by (auto simp: updateWaitingOrder_def Let_def)
  have full: "updateWaitingOrder e m username orderId items ss = (failWith 400 NoLinesToEdit, ss)"
    if "username \<noteq> []" "serialOf orderId \<noteq> []" "items \<noteq> []" "statusOf orderId = ''waiting''"
       "\<forall>it \<in> set items. eiProductCode it \<notin> set objectPrototypeKeys"
    using that Inr plain by (simp add: updateWaitingOrder_def Let_def)
  show ?thesis
    using res full by (elim disjE) (simp_all add: failWith_def, blast+)
qed

lemma stale_rows:
  "\<forall>it \<in> set staleEdit. \<forall>i.
     \<not> editTarget exampleHost (waiting (exampleStores ''sheetA'')) ''AA1'' (eiProductCode it) i"
proof -
  have "\<not> editTarget exampleHost (waiting (exampleStores ''sheetA'')) ''AA1'' ''P2'' i" for i
  proof (cases "i = 1 \<or> i = 2 \<or> i = 3")
    case True
    then show ?thesis
      by (elim disjE)
         (simp_all add: editTarget_def example_waiting example_inMonth cellOr_def trim_examples)
  next
    case False
    then show ?thesis
      by (auto simp: editTarget_def example_waiting)
  qed
  then show ?thesis by (simp add: staleEdit_def)
qed

theorem edit_without_match_witness:
  "updateWaitingOrder exampleHost exampleMaster ''mona'' ''AA1__waiting'' staleEdit exampleStores
     = (\<lparr>status = 400, body = Failure NoLinesToEdit\<rparr>, exampleStores)"
proof -
  have keys: "\<forall>it \<in> set staleEdit. eiProductCode it \<notin> set objectPrototypeKeys"
    by (simp add: staleEdit_def objectPrototypeKeys_def)
  have none: "\<forall>it \<in> set staleEdit. \<forall>i.
               \<not> editTarget exampleHost (waiting (exampleStores (uiBudgetSheetId u)))
                    (serialOf ''AA1__waiting'') (eiProductCode it) i"
    if "getUserInfoByUsername exampleMaster ''mona'' = Inr (Some u)" for u
  proof -
    have "u = mona" using that mona_found by simp
    then show ?thesis using stale_rows by (simp add: mona_sheet example_request)
  qed
  have ne: "staleEdit \<noteq> []" by (simp add: staleEdit_def)
  note t = edit_without_match
    [where m = exampleMaster and username = "''mona''" and orderId = "''AA1__waiting''"
       and items = staleEdit and ss = exampleStores and e = exampleHost, OF none]
  have "fst (updateWaitingOrder exampleHost exampleMaster ''mona'' ''AA1__waiting'' staleEdit
               exampleStores) = \<lparr>status = 400, body = Failure NoLinesToEdit\<rparr>"
    using t [THEN conjunct2, THEN conjunct2] keys ne mona_found mona_level
    by (simp add: example_request)
  moreover have "snd (updateWaitingOrder exampleHost exampleMaster ''mona'' ''AA1__waiting''
                        staleEdit exampleStores) = exampleStores"
    using t by (rule conjunct1)
  ultimately show ?thesis
    by (simp add: prod_eq_iff)
qed

text \<open>
  Claim C7, as amended. An approver edits the waiting order with serial \<open>s\<close>; no item of
  the request names a member of \<open>Object.prototype\<close> as its product code, and some item
  names a code that a line of the order carries. Then the answer is the success body with
  status 200. For each product code the request names, only the last line of the order
  with that code is edited, and when several items name the code, as the last of them
  asks: the line gets the requested quantity, not below 0, in column I and the stored unit
  price times that quantity in column G. No row changes its length or any cell outside
  columns G and I, every other row is what it was, and nothing else in any store changes.
\<close>

theorem edit_last_line_of_code:
  assumes "getUserInfoByUsername m username = Inr (Some u)"
      and "toUpperCase (uiLevel u) = ''L2''"
      and "username \<noteq> []"
      and "serialOf orderId = s"
      and "s \<noteq> []"
      and "statusOf orderId = ''waiting''"
      and "\<forall>it \<in> set items. eiProductCode it \<notin> set objectPrototypeKeys"
      and "\<exists>it \<in> set items. eiProductCode it \<noteq> []
             \<and> (\<exists>i. editTarget e (waiting (ss (uiBudgetSheetId u))) s (eiProductCode it) i)"
  shows "let sid = uiBudgetSheetId u;
             rows = waiting (ss sid);
             res = updateWaitingOrder e m username orderId items ss;
             rows' = waiting (snd res sid)
         in fst res = \<lparr>status = 200, body = Done\<rparr>
            \<and> length rows' = length rows
            \<and> (\<forall>r < length rows.
                  rows' ! r
                    = (case find (\<lambda>it. eiProductCode it \<noteq> []
                                      \<and> lastTarget e rows s (eiProductCode it) r) (rev items) of
                         None \<Rightarrow> rows ! r
                       | Some it \<Rightarrow> editedRow e (rows ! r) (eiQuantity it)))
            \<and> (\<forall>r < length rows.
                  length (rows' ! r) = length (rows ! r)
                  \<and> (\<forall>c. c \<noteq> 6 \<and> c \<noteq> 8 \<longrightarrow> rows' ! r ! c = rows ! r ! c))
            \<and> finalOrders (snd res sid) = finalOrders (ss sid)
            \<and> cancelledOrders (snd res sid) = cancelledOrders (ss sid)
            \<and> serialB2 (snd res sid) = serialB2 (ss sid)
            \<and> (\<forall>sid'. sid' \<noteq> sid \<longrightarrow> snd res sid' = ss sid')"
proof -
  let ?sid = "uiBudgetSheetId u"
  let ?rows = "waiting (ss ?sid)"
  have "\<exists>rows'. updateWaitingOrder e m username orderId items ss
                   = (json Done, ss(?sid := (ss ?sid)\<lparr>waiting := rows'\<rparr>))
           \<and> length rows' = length ?rows
           \<and> (\<forall>r < length ?rows.
                 rows' ! r
                   = (case find (\<lambda>it. eiProductCode it \<noteq> []
                                     \<and> lastTarget e ?rows s (eiProductCode it) r) (rev items) of
                        None \<Rightarrow> ?rows ! r
                      | Some it \<Rightarrow> editedRow e (?rows ! r) (eiQuantity it)))"
    using assms by (rule updateWaitingOrder_rows)
  then obtain rows' where R:
    "updateWaitingOrder e m username orderId items ss
                   = (json Done, ss(?sid := (ss ?sid)\<lparr>waiting := rows'\<rparr>))
           \<and> length rows' = length ?rows
           \<and> (\<forall>r < length ?rows.
                 rows' ! r
                   = (case find (\<lambda>it. eiProductCode it \<noteq> []
                                     \<and> lastTarget e ?rows s (eiProductCode it) r) (rev items) of
                        None \<Rightarrow> ?rows ! r
                      | Some it \<Rightarrow> editedRow e (?rows ! r) (eiQuantity it)))" ..
  note res = R [THEN conjunct1] and len = R [THEN conjunct2, THEN conjunct1]
   and nths = R [THEN conjunct2, THEN conjunct2]
  have frame: "length (rows' ! r) = length (?rows ! r)
                 \<and> (\<forall>c. c \<noteq> 6 \<and> c \<noteq> 8 \<longrightarrow> rows' ! r ! c = ?rows ! r ! c)"
    if "r < length ?rows" for r
    using nths [rule_format, OF that]
    by (cases "find (\<lambda>it. eiProductCode it \<noteq> [] \<and> lastTarget e ?rows s (eiProductCode it) r)
                 (rev items)")
       (simp_all add: editedRow_frame)
  show ?thesis
    unfolding Let_def res using len nths frame by (simp add: json_def)
qed

lemma example_roles:
  "lastTarget exampleHost (waiting (exampleStores ''sheetA'')) ''AA1'' ''P1'' r \<longleftrightarrow> r = 1"
  "lastTarget exampleHost (waiting (repeatedStores ''sheetA'')) ''AA1'' ''P1'' r \<longleftrightarrow> r = 2"
proof -
  have w: "waiting (repeatedStores ''sheetA'')
     = [orderHeader,
        [''2026-11-03 09:15:00'', ''Maadi'', ''amr'', ''P1'', ''Juice'', ''10'', ''30'',
         ''Drinks'', ''3'', [], ''AA1''],
        [''2026-11-03 09:15:00'', ''Maadi'', ''amr'', ''P1'', ''Juice'', ''10'', ''10'',
         ''Drinks'', ''1'', [], ''AA1'']]"
    by (simp add: repeatedStores_def repeatedStore_def)
  have a: "editTarget exampleHost (waiting (exampleStores ''sheetA'')) ''AA1'' ''P1'' i \<longleftrightarrow> i = 1"
    for i
  proof (cases "i = 1 \<or> i = 2 \<or> i = 3")
    case True
    then show ?thesis
      by (elim disjE)
         (simp_all add: editTarget_def example_waiting example_inMonth cellOr_def trim_examples)
  next
    case False
    then show ?thesis by (auto simp: editTarget_def example_waiting)
  qed
  have b: "editTarget exampleHost (waiting (repeatedStores ''sheetA'')) ''AA1'' ''P1'' i
             \<longleftrightarrow> i = 1 \<or> i = 2" for i
  proof (cases "i = 1 \<or> i = 2")
    case True
    then show ?thesis
      by (elim disjE)
         (simp_all add: editTarget_def w example_inMonth cellOr_def trim_examples)
  next
    case False
    then show ?thesis by (auto simp: editTarget_def w)
  qed
  show "lastTarget exampleHost (waiting (exampleStores ''sheetA'')) ''AA1'' ''P1'' r \<longleftrightarrow> r = 1"
    by (auto simp: lastTarget_def a list_ex_iff)
  have "length (waiting (repeatedStores ''sheetA'')) = 3"
    by (simp add: w)
  then show "lastTarget exampleHost (waiting (repeatedStores ''sheetA'')) ''AA1'' ''P1'' r \<longleftrightarrow> r = 2"
    by (auto simp: lastTarget_def b list_ex_iff)
qed

lemma example_edited:
  "editedRow exampleHost
     [''2026-11-03 09:15:00'', ''Maadi'', ''amr'', ''P1'', ''Juice'', ''10'', ''30'', ''Drinks'',
      ''3'', [], ''AA1'']
     (JNum (Fin 5))
   = [''2026-11-03 09:15:00'', ''Maadi'', ''amr'', ''P1'', ''Juice'', ''10'', ''50'', ''Drinks'',
      ''5'', [], ''AA1'']"
  "editedRow exampleHost
     [''2026-11-03 09:15:00'', ''Maadi'', ''amr'', ''P1'', ''Juice'', ''10'', ''10'', ''Drinks'',
      ''1'', [], ''AA1'']
     (JNum (Fin 5))
   = [''2026-11-03 09:15:00'', ''Maadi'', ''amr'', ''P1'', ''Juice'', ''10'', ''50'', ''Drinks'',
      ''5'', [], ''AA1'']"
  by code_simp+

lemma example_edit_request:
  "\<forall>it \<in> set exampleEdit. eiProductCode it \<notin> set objectPrototypeKeys"
  "\<exists>it \<in> set exampleEdit. eiProductCode it \<noteq> []
     \<and> (\<exists>i. editTarget exampleHost (waiting (exampleStores (uiBudgetSheetId mona))) ''AA1''
               (eiProductCode it) i)"
  "\<exists>it \<in> set exampleEdit. eiProductCode it \<noteq> []
     \<and> (\<exists>i. editTarget exampleHost (waiting (repeatedStores (uiBudgetSheetId mona))) ''AA1''
               (eiProductCode it) i)"
  using example_roles(1) [of 1] example_roles(2) [of 2]
  by (auto simp: exampleEdit_def objectPrototypeKeys_def mona_sheet lastTarget_def)

theorem edit_last_line_of_code_witness:
  "fst (updateWaitingOrder exampleHost exampleMaster ''mona'' ''AA1__waiting'' exampleEdit
          exampleStores) = \<lparr>status = 200, body = Done\<rparr>
   \<and> waiting (snd (updateWaitingOrder exampleHost exampleMaster ''mona'' ''AA1__waiting''
                     exampleEdit exampleStores) ''sheetA'')
       = [orderHeader,
          [''2026-11-03 09:15:00'', ''Maadi'', ''amr'', ''P1'', ''Juice'', ''10'', ''50'',
           ''Drinks'', ''5'', [], ''AA1''],
          [''46315'', ''Maadi'', ''amr'', ''P2'', ''Water'', ''5'', ''10'', ''Drinks'', ''2'', [],
           ''AA1''],
          [''46329'', ''Zayed'', ''ali'', ''P1'', ''Juice'', ''10'', ''20'', ''Drinks'', ''2'', [],
           ''AA2'']]"
proof -
  let ?res = "updateWaitingOrder exampleHost exampleMaster ''mona'' ''AA1__waiting'' exampleEdit
                exampleStores"
  let ?rows = "waiting (exampleStores ''sheetA'')"
  note t = edit_last_line_of_code
    [where m = exampleMaster and username = "''mona''" and u = mona
       and orderId = "''AA1__waiting''" and s = "''AA1''" and items = exampleEdit
       and ss = exampleStores and e = exampleHost,
     OF mona_found mona_level _ example_request(3) _ example_request(4)
        example_edit_request(1) example_edit_request(2),
     unfolded Let_def mona_sheet]
  have t1: "fst ?res = \<lparr>status = 200, body = Done\<rparr>"
    using t by (rule conjunct1) simp_all
  have t2: "length (waiting (snd ?res ''sheetA'')) = length ?rows"
    using t [THEN conjunct2, THEN conjunct1] by simp
  have t3: "\<forall>r < length ?rows.
              waiting (snd ?res ''sheetA'') ! r
                = (case find (\<lambda>it. eiProductCode it \<noteq> []
                                  \<and> lastTarget exampleHost ?rows ''AA1'' (eiProductCode it) r)
                          (rev exampleEdit) of
                     None \<Rightarrow> ?rows ! r
                   | Some it \<Rightarrow> editedRow exampleHost (?rows ! r) (eiQuantity it))"
    using t [THEN conjunct2, THEN conjunct2, THEN conjunct1] by simp
  have row: "waiting (snd ?res ''sheetA'') ! r
               = (if r = 1 then editedRow exampleHost (?rows ! r) (JNum (Fin 5)) else ?rows ! r)"
    if "r < 4" for r
  proof -
    have "r < length ?rows" using that by (simp add: example_waiting)
    then show ?thesis
      using t3 by (simp add: exampleEdit_def example_roles)
  qed
  have "length (waiting (snd ?res ''sheetA'')) = 4"
    using t2 by (simp add: example_waiting)
  then have "waiting (snd ?res ''sheetA'')
               = [waiting (snd ?res ''sheetA'') ! 0, waiting (snd ?res ''sheetA'') ! 1,
                  waiting (snd ?res ''sheetA'') ! 2, waiting (snd ?res ''sheetA'') ! 3]"
    by (intro nth_equalityI) (auto simp: nth_Cons' less_Suc_eq numeral_eq_Suc)
  also have "\<dots> = [?rows ! 0, editedRow exampleHost (?rows ! 1) (JNum (Fin 5)), ?rows ! 2, ?rows ! 3]"
    by (simp add: row)
  finally show ?thesis
    using t1 by (simp add: example_waiting example_edited)
qed

text \<open>
  The claim as stated fails when an order holds a product in two lines: both lines match
  the serial, the code and the month, and the edit to quantity 5 changes only the second.
\<close>

theorem edit_skips_repeated_code:
  "editTarget exampleHost (waiting (repeatedStores ''sheetA'')) ''AA1'' ''P1'' 1
   \<and> fst (updateWaitingOrder exampleHost exampleMaster ''mona'' ''AA1__waiting'' exampleEdit
            repeatedStores) = \<lparr>status = 200, body = Done\<rparr>
   \<and> waiting (snd (updateWaitingOrder exampleHost exampleMaster ''mona'' ''AA1__waiting''
                     exampleEdit repeatedStores) ''sheetA'') ! 1
       = [''2026-11-03 09:15:00'', ''Maadi'', ''amr'', ''P1'', ''Juice'', ''10'', ''30'',
          ''Drinks'', ''3'', [], ''AA1'']
   \<and> waiting (snd (updateWaitingOrder exampleHost exampleMaster ''mona'' ''AA1__waiting''
                     exampleEdit repeatedStores) ''sheetA'') ! 2
       = [''2026-11-03 09:15:00'', ''Maadi'', ''amr'', ''P1'', ''Juice'', ''10'', ''50'',
          ''Drinks'', ''5'', [], ''AA1'']"
proof -
  let ?res = "updateWaitingOrder exampleHost exampleMaster ''mona'' ''AA1__waiting'' exampleEdit
                repeatedStores"
  let ?rows = "waiting (repeatedStores ''sheetA'')"
  have w: "?rows
     = [orderHeader,
        [''2026-11-03 09:15:00'', ''Maadi'', ''amr'', ''P1'', ''Juice'', ''10'', ''30'',
         ''Drinks'', ''3'', [], ''AA1''],
        [''2026-11-03 09:15:00'', ''Maadi'', ''amr'', ''P1'', ''Juice'', ''10'', ''10'',
         ''Drinks'', ''1'', [], ''AA1'']]"
    by (simp add: repeatedStores_def repeatedStore_def)
  from updateWaitingOrder_rows
    [where m = exampleMaster and username = "''mona''" and u = mona
       and orderId = "''AA1__waiting''" and s = "''AA1''" and items = exampleEdit
       and ss = repeatedStores and e = exampleHost,
     OF mona_found mona_level _ example_request(3) _ example_request(4)
        example_edit_request(1) example_edit_request(3),
     unfolded mona_sheet]
  obtain rows' where res: "?res = (json Done, repeatedStores(''sheetA'' := (repeatedStores ''sheetA'')\<lparr>waiting := rows'\<rparr>))"
      and nths: "\<forall>r < length ?rows.
                 rows' ! r
                   = (case find (\<lambda>it. eiProductCode it \<noteq> []
                                     \<and> lastTarget exampleHost ?rows ''AA1'' (eiProductCode it) r)
                             (rev exampleEdit) of
                        None \<Rightarrow> ?rows ! r
                      | Some it \<Rightarrow> editedRow exampleHost (?rows ! r) (eiQuantity it))"
    by auto
  have row: "rows' ! r = (if r = 2 then editedRow exampleHost (?rows ! r) (JNum (Fin 5)) else ?rows ! r)"
    if "r < 3" for r
  proof -
    have "r < length ?rows" using that by (simp add: w)
    then show ?thesis
      using nths by (simp add: exampleEdit_def example_roles)
  qed
  have target: "editTarget exampleHost ?rows ''AA1'' ''P1'' 1"
    by (simp add: editTarget_def w example_inMonth cellOr_def trim_examples)
  have r1: "rows' ! 1 = ?rows ! 1" and r2: "rows' ! 2 = editedRow exampleHost (?rows ! 2) (JNum (Fin 5))"
    using row [of 1] row [of 2] by simp_all
  show ?thesis
    using target r1 r2 by (simp add: res json_def w example_edited)
qed
end
